theory Spec2Isabelle
  imports Main "HOL-Library.Extended_Nat"
begin

section \<open>Data model\<close>

text \<open>
  The values a \<^verbatim>\<open>constraints\<close> slot can hold (\<^verbatim>\<open>BigNumberish\<close> as it arrives from the
  datastore): a string, a JavaScript number, or \<^verbatim>\<open>undefined\<close> (what an array read
  past the end yields).
\<close>

datatype js_value = JSString string | JSNumber int | JSUndefined

text \<open>Array read \<^verbatim>\<open>xs[i]\<close>: \<^verbatim>\<open>undefined\<close> out of range.\<close>

definition js_index :: "js_value list \<Rightarrow> nat \<Rightarrow> js_value" where
  "js_index xs i = (if i < length xs then xs ! i else JSUndefined)"

record TokenInfo =
  tokenId :: string
  numTokens :: nat

record ChainNFTs =
  collection :: string
  tokens :: "TokenInfo list"

record ChainOBOrder =
  isSellOrder :: bool
  signer :: string
  constraints :: "js_value list"
  nfts :: "ChainNFTs list"
  execParams :: "string list"
  extraParams :: string
  sig :: string

text \<open>
  A Firestore order document. The field \<^verbatim>\<open>isSellOrder\<close> of the document is
  \<open>order_isSellOrder\<close> here, \<^verbatim>\<open>chainId\<close> is \<open>order_chainId\<close> (the signed order and the
  bundle item have fields of the same names).
\<close>

record FirestoreOrder =
  order_isSellOrder :: bool
  order_chainId :: string
  signedOrder :: ChainOBOrder
  nonce :: js_value
  complicationAddress :: string
  currencyAddress :: string

text \<open>
  \<^verbatim>\<open>match.matchData.orderItems\<close> is an object keyed by collection address, each
  collection holding an object \<^verbatim>\<open>tokens\<close> keyed by token id. Both are association lists
  here, in the order in which \<^verbatim>\<open>Object.values\<close> enumerates the properties.
\<close>

record OrderItemCollection =
  collectionAddress :: string
  collection_tokens :: "(string \<times> TokenInfo) list"

datatype FirestoreOrderMatchMethod = MatchOrdersMethod | MatchOneToOneOrdersMethod | OtherMethod string

datatype FirestoreOrderMatchStatus = Inactive | Active | Matched | Error_status

record FirestoreOrderMatch =
  ids :: "string list"
  orderItems :: "(string \<times> OrderItemCollection) list"
  match_type :: FirestoreOrderMatchMethod
  state_status :: FirestoreOrderMatchStatus

datatype BundleType = MatchOrders | MatchOrdersOneToOne

text \<open>
  The fields every bundle item has (\<^verbatim>\<open>id\<close> is \<open>item_id\<close>, \<^verbatim>\<open>chainId\<close> is \<open>item_chainId\<close>);
  \<^verbatim>\<open>MatchOrdersOneToOneBundleItem\<close> has exactly these, \<^verbatim>\<open>MatchOrdersBundleItem\<close> has the
  \<^verbatim>\<open>constructed\<close> order in addition. \<^verbatim>\<open>bundleType\<close> is the tag of the union.
\<close>

record MatchOrdersOneToOneBundleItem =
  item_id :: string
  item_chainId :: string
  exchangeAddress :: string
  sell :: ChainOBOrder
  buy :: ChainOBOrder
  buyOrderHash :: string
  sellOrderHash :: string

record MatchOrdersBundleItem = MatchOrdersOneToOneBundleItem +
  constructed :: ChainOBOrder

datatype BundleItem =
  MatchOrdersItem MatchOrdersBundleItem
| MatchOrdersOneToOneItem MatchOrdersOneToOneBundleItem

fun bundleType :: "BundleItem \<Rightarrow> BundleType" where
  "bundleType (MatchOrdersItem _) = MatchOrders"
| "bundleType (MatchOrdersOneToOneItem _) = MatchOrdersOneToOne"

section \<open>Bundle item builder: flattening the matched NFTs\<close>

text \<open>
  The loop at the head of \<^verbatim>\<open>createBundleItem\<close>. The inner loop pushes one token per entry
  of \<^verbatim>\<open>Object.values(collection.tokens)\<close> and counts it; the outer loop pushes the
  collection's entry, bumps a zero count to one and adds it to \<^verbatim>\<open>numMatches\<close>. The state of
  each loop is its accumulators.
\<close>

fun flatten_tokens :: "TokenInfo list \<Rightarrow> TokenInfo list \<times> nat \<Rightarrow> TokenInfo list \<times> nat" where
  "flatten_tokens [] (toks, collectionNumMatches) = (toks, collectionNumMatches)"
| "flatten_tokens (token # rest) (toks, collectionNumMatches) =
     flatten_tokens rest
       (toks @ [\<lparr>tokenId = tokenId token, numTokens = numTokens token\<rparr>], collectionNumMatches + 1)"

fun flatten_collections ::
  "OrderItemCollection list \<Rightarrow> ChainNFTs list \<times> nat \<Rightarrow> ChainNFTs list \<times> nat" where
  "flatten_collections [] (chainNfts, numMatches) = (chainNfts, numMatches)"
| "flatten_collections (c # rest) (chainNfts, numMatches) =
     (let (toks, collectionNumMatches) = flatten_tokens (map snd (collection_tokens c)) ([], 0);
          collectionChainNfts = \<lparr>collection = collectionAddress c, tokens = toks\<rparr>;
          collectionNumMatches' =
            (if collectionNumMatches = 0 then collectionNumMatches + 1 else collectionNumMatches)
      in flatten_collections rest (chainNfts @ [collectionChainNfts], numMatches + collectionNumMatches'))"

definition flatten_order_items :: "FirestoreOrderMatch \<Rightarrow> ChainNFTs list \<times> nat" where
  "flatten_order_items match = flatten_collections (map snd (orderItems match)) ([], 0)"

section \<open>Bundle item builder\<close>

text \<open>
  What the builder can throw: the four \<^verbatim>\<open>new Error(...)\<close> of the source, named after
  their messages, the failures of the calls it makes into libraries, and the call of a
  method that the class does not have.
\<close>

datatype js_error =
  OrderMatchNotActive \<comment> \<open>\<^verbatim>\<open>'Order match is not active'\<close>\<close>
| OrderNotFound \<comment> \<open>\<^verbatim>\<open>'Order not found'\<close>\<close>
| MultipleOrders \<comment> \<open>\<^verbatim>\<open>'Multiple orders are not yet supported'\<close>\<close>
| UnknownMatchType \<comment> \<open>\<^verbatim>\<open>'Unknown match type: ...'\<close>\<close>
| BigNumberError \<comment> \<open>\<^verbatim>\<open>BigNumber.from\<close> rejects the value\<close>
| OrderHashError \<comment> \<open>\<^verbatim>\<open>orderHash\<close> throws\<close>
| DatastoreError \<comment> \<open>\<^verbatim>\<open>db.getAll\<close> rejects\<close>
| PriceError \<comment> \<open>the price computation of a verifier throws\<close>
| EmitIsNotAFunction \<comment> \<open>\<^verbatim>\<open>TypeError\<close>: \<^verbatim>\<open>this.emit\<close> is not a function\<close>

text \<open>
  The builder's surroundings, as parameters: \<open>bn_toString v\<close> is
  \<^verbatim>\<open>BigNumber.from(v).toString()\<close> of the ethers library (\<open>None\<close> when it throws),
  \<open>orderHash\<close> is the function of \<^verbatim>\<open>utils/order-hash\<close>, \<open>getExchangeAddress\<close> the one of the
  exchange library, and \<open>getAll\<close> the batched read of the orders collection: one entry per
  requested id, \<open>None\<close> where the snapshot has no data.
\<close>

record provider =
  bn_toString :: "js_value \<Rightarrow> string option"
  orderHash :: "ChainOBOrder \<Rightarrow> string option"
  getExchangeAddress :: "string \<Rightarrow> string"
  getAll :: "string list \<Rightarrow> FirestoreOrder option list option"

definition normalize :: "provider \<Rightarrow> js_value \<Rightarrow> js_error + js_value" where
  "normalize env v =
     (case bn_toString env v of None \<Rightarrow> Inl BigNumberError | Some s \<Rightarrow> Inr (JSString s))"

text \<open>\<^verbatim>\<open>constraints.map((item) => BigNumber.from(item).toString())\<close>: the first throw ends it.\<close>

fun normalize_all :: "provider \<Rightarrow> js_value list \<Rightarrow> js_error + js_value list" where
  "normalize_all env [] = Inr []"
| "normalize_all env (v # vs) =
     (case normalize env v of
        Inl e \<Rightarrow> Inl e
      | Inr s \<Rightarrow> (case normalize_all env vs of Inl e \<Rightarrow> Inl e | Inr ss \<Rightarrow> Inr (s # ss)))"

text \<open>
  \<^verbatim>\<open>getMatchOrdersBundle\<close>. The source overwrites \<^verbatim>\<open>constraints\<close> of the two signed orders
  in place, after it has built \<^verbatim>\<open>constructed\<close>; the bundle item holds the overwritten
  orders.
\<close>

definition getMatchOrdersBundle ::
  "provider \<Rightarrow> string \<Rightarrow> FirestoreOrder \<Rightarrow> FirestoreOrder \<Rightarrow> nat \<Rightarrow> ChainNFTs list
     \<Rightarrow> js_error + MatchOrdersBundleItem" where
  "getMatchOrdersBundle env ident listing offer numMatches chainNfts =
     (case normalize env (js_index (constraints (signedOrder offer)) 1) of
        Inl e \<Rightarrow> Inl e
      | Inr c1 \<Rightarrow>
     (case normalize env (js_index (constraints (signedOrder offer)) 2) of
        Inl e \<Rightarrow> Inl e
      | Inr c2 \<Rightarrow>
     (let constructed_order =
            \<lparr>isSellOrder = False,
             signer = signer (signedOrder listing),
             constraints =
               [JSNumber (int numMatches), c1, c2,
                js_index (constraints (signedOrder offer)) 3,
                js_index (constraints (signedOrder offer)) 4,
                nonce offer],
             nfts = chainNfts,
             execParams = [complicationAddress listing, currencyAddress listing],
             extraParams = extraParams (signedOrder listing),
             sig = sig (signedOrder listing)\<rparr>
      in
     (case normalize_all env (constraints (signedOrder listing)) of
        Inl e \<Rightarrow> Inl e
      | Inr listing_constraints \<Rightarrow>
     (case normalize_all env (constraints (signedOrder offer)) of
        Inl e \<Rightarrow> Inl e
      | Inr offer_constraints \<Rightarrow>
     (let listing_signedOrder = (signedOrder listing)\<lparr>constraints := listing_constraints\<rparr>;
          offer_signedOrder = (signedOrder offer)\<lparr>constraints := offer_constraints\<rparr>
      in
     (case orderHash env offer_signedOrder of
        None \<Rightarrow> Inl OrderHashError
      | Some buy_hash \<Rightarrow>
     (case orderHash env listing_signedOrder of
        None \<Rightarrow> Inl OrderHashError
      | Some sell_hash \<Rightarrow>
          Inr \<lparr>item_id = ident,
               item_chainId = order_chainId listing,
               exchangeAddress = getExchangeAddress env (order_chainId listing),
               sell = listing_signedOrder,
               buy = offer_signedOrder,
               buyOrderHash = buy_hash,
               sellOrderHash = sell_hash,
               constructed = constructed_order\<rparr>))))))))"

definition createBundleItem ::
  "provider \<Rightarrow> string \<Rightarrow> FirestoreOrder \<Rightarrow> FirestoreOrder \<Rightarrow> FirestoreOrderMatch
     \<Rightarrow> js_error + BundleItem" where
  "createBundleItem env ident listing offer match =
     (let (chainNfts, numMatches) = flatten_order_items match
      in case match_type match of
           MatchOrdersMethod \<Rightarrow>
             (case getMatchOrdersBundle env ident listing offer numMatches chainNfts of
                Inl e \<Rightarrow> Inl e
              | Inr item \<Rightarrow> Inr (MatchOrdersItem item))
         | MatchOneToOneOrdersMethod \<Rightarrow>
             (case orderHash env (signedOrder offer) of
                None \<Rightarrow> Inl OrderHashError
              | Some buy_hash \<Rightarrow>
             (case orderHash env (signedOrder listing) of
                None \<Rightarrow> Inl OrderHashError
              | Some sell_hash \<Rightarrow>
                  Inr (MatchOrdersOneToOneItem
                    \<lparr>item_id = ident,
                     item_chainId = order_chainId listing,
                     exchangeAddress = getExchangeAddress env (order_chainId listing),
                     sell = signedOrder listing,
                     buy = signedOrder offer,
                     buyOrderHash = buy_hash,
                     sellOrderHash = sell_hash\<rparr>)))
         | OtherMethod _ \<Rightarrow> Inl UnknownMatchType)"

text \<open>
  \<^verbatim>\<open>getOrders\<close>. The two filters: \<^verbatim>\<open>item?.isSellOrder === true\<close> and
  \<^verbatim>\<open>item?.isSellOrder === false\<close>, both false for a snapshot without data. The test for a
  missing order comes first, the test for more than one order second.
\<close>

definition is_listing :: "FirestoreOrder option \<Rightarrow> bool" where
  "is_listing entry = (case entry of None \<Rightarrow> False | Some ord \<Rightarrow> order_isSellOrder ord = True)"

definition is_offer :: "FirestoreOrder option \<Rightarrow> bool" where
  "is_offer entry = (case entry of None \<Rightarrow> False | Some ord \<Rightarrow> order_isSellOrder ord = False)"

definition getOrders ::
  "provider \<Rightarrow> FirestoreOrderMatch \<Rightarrow> js_error + (FirestoreOrder \<times> FirestoreOrder)" where
  "getOrders env match =
     (case getAll env (ids match) of
        None \<Rightarrow> Inl DatastoreError
      | Some orders \<Rightarrow>
         (let listings = filter is_listing orders;
              offers = filter is_offer orders
          in case (listings, offers) of
               (Some listing # _, Some offer # _) \<Rightarrow>
                 (if length listings > 1 \<or> length offers > 1 then Inl MultipleOrders
                  else Inr (listing, offer))
             | _ \<Rightarrow> Inl OrderNotFound))"

text \<open>
  What a handler does to the outside: the events it emits, what it logs with
  \<^verbatim>\<open>console.error\<close>, and the writes to the match documents (\<^verbatim>\<open>deleteOrderMatch\<close>,
  \<^verbatim>\<open>updateOrderMatch\<close> and \<^verbatim>\<open>orderCompleted\<close> are the only methods of the class that write;
  of the state that \<^verbatim>\<open>updateOrderMatch\<close> merges, the status is kept).
\<close>

datatype TransactionProviderEvent = Update string BundleItem | Remove string

datatype store_write =
  DeleteMatch string
| MergeState string FirestoreOrderMatchStatus
| UpdateStatus string FirestoreOrderMatchStatus

record effects =
  emitted :: "TransactionProviderEvent list"
  logged :: "js_error list"
  written :: "store_write list"

definition deleteOrderMatch :: "string \<Rightarrow> effects" where
  "deleteOrderMatch ident = \<lparr>emitted = [], logged = [], written = [DeleteMatch ident]\<rparr>"

definition updateOrderMatch :: "string \<Rightarrow> FirestoreOrderMatchStatus \<Rightarrow> effects" where
  "updateOrderMatch ident st = \<lparr>emitted = [], logged = [], written = [MergeState ident st]\<rparr>"

definition orderCompleted :: "string \<Rightarrow> FirestoreOrderMatchStatus \<Rightarrow> effects" where
  "orderCompleted ident st = \<lparr>emitted = [], logged = [], written = [UpdateStatus ident st]\<rparr>"

text \<open>
  The class calls \<^verbatim>\<open>this.emit(...)\<close>, and neither it nor its base class
  \<^verbatim>\<open>TransactionProvider\<close> declares a method \<^verbatim>\<open>emit\<close>: the base class has the field
  \<^verbatim>\<open>emitter\<close> and the methods \<^verbatim>\<open>on\<close> and \<^verbatim>\<open>off\<close>. The call throws a \<^verbatim>\<open>TypeError\<close> and no
  event reaches the emitter.
\<close>

definition emit :: "TransactionProviderEvent \<Rightarrow> js_error + effects" where
  "emit event = Inl EmitIsNotAFunction"

text \<open>\<^verbatim>\<open>handleOrderMatchRemoved\<close> is not in a \<^verbatim>\<open>try\<close>: the throw is its own.\<close>

definition handleOrderMatchRemoved :: "string \<Rightarrow> js_error + effects" where
  "handleOrderMatchRemoved ident = emit (Remove ident)"

text \<open>
  \<^verbatim>\<open>handleOrderMatchUpdate\<close>: the whole body, the call of \<^verbatim>\<open>this.emit\<close> included, is in a
  \<^verbatim>\<open>try\<close> whose \<^verbatim>\<open>catch\<close> logs the error. \<open>build_item\<close> is the body up to that call.
\<close>

definition build_item :: "provider \<Rightarrow> string \<Rightarrow> FirestoreOrderMatch \<Rightarrow> js_error + BundleItem" where
  "build_item env ident match =
     (if state_status match \<noteq> Active then Inl OrderMatchNotActive
      else case getOrders env match of
             Inl e \<Rightarrow> Inl e
           | Inr (listing, offer) \<Rightarrow> createBundleItem env ident listing offer match)"

definition handleOrderMatchUpdate :: "provider \<Rightarrow> string \<Rightarrow> FirestoreOrderMatch \<Rightarrow> effects" where
  "handleOrderMatchUpdate env ident match =
     (case build_item env ident match of
        Inl err \<Rightarrow> \<lparr>emitted = [], logged = [err], written = []\<rparr>
      | Inr bundleItem \<Rightarrow>
          (case emit (Update ident bundleItem) of
             Inl err \<Rightarrow> \<lparr>emitted = [], logged = [err], written = []\<rparr>
           | Inr done \<Rightarrow> done))"

section \<open>Exchange: validation passes\<close>

datatype FirestoreOrderMatchErrorCode =
  OrderInvalid
| NotApprovedToTransferToken
| InsufficientTokenBalance
| InsufficientCurrencyAllowance
| InsufficientCurrencyBalance
| UnknownError

text \<open>
  \<^verbatim>\<open>InvalidBundleItem\<close>; of \<^verbatim>\<open>orderError\<close> the code is kept, the message text is not modelled.
  \<^verbatim>\<open>BundleItemWithCurrentPrice\<close> is the item with the field \<^verbatim>\<open>currentPrice\<close> added. Both are
  generic in the item type \<open>'t\<close> of the encoder (\<^verbatim>\<open>T extends BundleItem\<close>); the function
  \<open>view\<close> that the passes take is the inclusion of \<open>'t\<close> in the union \<^verbatim>\<open>BundleItem\<close>.
\<close>

record 't InvalidBundleItem =
  bundleItem :: 't
  orderError :: FirestoreOrderMatchErrorCode

record 't BundleItemWithCurrentPrice =
  item :: 't
  currentPrice :: nat

text \<open>
  What a pass returns; its field \<^verbatim>\<open>invalidBundleItems\<close> is \<open>invalidWithError\<close> here (the
  encoder's result has a field of the same name, of another type).
\<close>

record 't checked =
  validBundleItems :: "'t BundleItemWithCurrentPrice list"
  invalidWithError :: "'t InvalidBundleItem list"

text \<open>The outcome of \<^verbatim>\<open>Promise.allSettled\<close> for one \<^verbatim>\<open>verifyMatchOrders\<close> call.\<close>

datatype settled = Fulfilled bool | Rejected

text \<open>
  The chain as the passes observe it. \<open>contract_address\<close> is the address of the exchange
  contract (the \<^verbatim>\<open>operator\<close>), \<open>weth\<close> is \<^verbatim>\<open>getTxnCurrencyAddress(chainId)\<close>. A read that
  throws (the contract cannot be built, the call fails) is \<open>None\<close>.
\<close>

record chain =
  contract_address :: string
  weth :: string
  verifyMatchOrders :: "string \<Rightarrow> string \<Rightarrow> ChainOBOrder \<Rightarrow> ChainOBOrder \<Rightarrow> settled"
  isApprovedForAll :: "string \<Rightarrow> string \<Rightarrow> string \<Rightarrow> bool option"
  ownerOf :: "string \<Rightarrow> string \<Rightarrow> string option"
  allowance :: "string \<Rightarrow> string \<Rightarrow> string \<Rightarrow> nat option"
  balanceOf :: "string \<Rightarrow> string \<Rightarrow> nat option"

fun item_sell :: "BundleItem \<Rightarrow> ChainOBOrder" where
  "item_sell (MatchOrdersItem i) = sell i"
| "item_sell (MatchOrdersOneToOneItem i) = sell i"

fun item_buy :: "BundleItem \<Rightarrow> ChainOBOrder" where
  "item_buy (MatchOrdersItem i) = buy i"
| "item_buy (MatchOrdersOneToOneItem i) = buy i"

text \<open>\<^verbatim>\<open>String.prototype.toLowerCase\<close> on the ASCII letters (addresses are ASCII).\<close>

definition lower_char :: "char \<Rightarrow> char" where
  "lower_char c =
     (case map_of (zip ''ABCDEFGHIJKLMNOPQRSTUVWXYZ'' ''abcdefghijklmnopqrstuvwxyz'') c of
        None \<Rightarrow> c
      | Some l \<Rightarrow> l)"

definition toLowerCase :: "string \<Rightarrow> string" where
  "toLowerCase s = map lower_char s"

text \<open>
  The two \<^verbatim>\<open>reduce\<close> calls that split the per-item results into the valid and the invalid
  list, each in the order of the input.
\<close>

definition collect ::
  "('t BundleItemWithCurrentPrice \<times> FirestoreOrderMatchErrorCode option) list \<Rightarrow> 't checked" where
  "collect results =
     foldl (\<lambda>acc (bi, verdict).
              case verdict of
                None \<Rightarrow> acc\<lparr>validBundleItems := validBundleItems acc @ [bi]\<rparr>
              | Some code \<Rightarrow>
                  acc\<lparr>invalidWithError :=
                        invalidWithError acc @ [\<lparr>bundleItem = item bi, orderError = code\<rparr>]\<rparr>)
       \<lparr>validBundleItems = [], invalidWithError = []\<rparr> results"

subsection \<open>Seller pass\<close>

text \<open>
  The body of the \<^verbatim>\<open>try\<close> for one item; \<open>None\<close> is \<^verbatim>\<open>isValid: true\<close>, \<open>Some code\<close> the
  invalid result with that code. A throw anywhere in the body is caught and gives
  \<open>UnknownError\<close>.
\<close>

fun owner_pass :: "chain \<Rightarrow> string \<Rightarrow> string \<Rightarrow> TokenInfo list \<Rightarrow> FirestoreOrderMatchErrorCode option" where
  "owner_pass env coll signerAddress [] = None"
| "owner_pass env coll signerAddress (token # rest) =
     (case ownerOf env coll (tokenId token) of
        None \<Rightarrow> Some UnknownError
      | Some ownerOfToken \<Rightarrow>
          if signerAddress \<noteq> toLowerCase ownerOfToken then Some InsufficientTokenBalance
          else owner_pass env coll signerAddress rest)"

fun seller_pass :: "chain \<Rightarrow> string \<Rightarrow> ChainNFTs list \<Rightarrow> FirestoreOrderMatchErrorCode option" where
  "seller_pass env signerAddress [] = None"
| "seller_pass env signerAddress (nft # rest) =
     (case isApprovedForAll env (collection nft) signerAddress (contract_address env) of
        None \<Rightarrow> Some UnknownError
      | Some isApproved \<Rightarrow>
          if \<not> isApproved then Some NotApprovedToTransferToken
          else (case owner_pass env (collection nft) signerAddress (tokens nft) of
                  Some code \<Rightarrow> Some code
                | None \<Rightarrow> seller_pass env signerAddress rest))"

fun seller_nfts :: "BundleItem \<Rightarrow> ChainNFTs list" where
  "seller_nfts (MatchOrdersItem i) = nfts (constructed i)"
| "seller_nfts (MatchOrdersOneToOneItem i) = nfts (sell i)"

definition seller_verdict :: "chain \<Rightarrow> BundleItem \<Rightarrow> FirestoreOrderMatchErrorCode option" where
  "seller_verdict env bundle_item =
     seller_pass env (signer (item_sell bundle_item)) (seller_nfts bundle_item)"

definition checkNftSellerApprovalAndBalance ::
  "chain \<Rightarrow> ('t \<Rightarrow> BundleItem) \<Rightarrow> 't BundleItemWithCurrentPrice list \<Rightarrow> 't checked" where
  "checkNftSellerApprovalAndBalance env view bundleItems =
     collect (map (\<lambda>bi. (bi, seller_verdict env (view (item bi)))) bundleItems)"

subsection \<open>Buyer pass\<close>

text \<open>
  \<^verbatim>\<open>[...new Set([currency, weth])]\<close>: the order currency first, the wrapped native currency
  after it unless it is the same string. \<^verbatim>\<open>execParams[1]\<close> is \<^verbatim>\<open>undefined\<close> (\<open>None\<close>) when
  the array is shorter; no contract can be built for it.
\<close>

definition buyer_currencies :: "chain \<Rightarrow> BundleItem \<Rightarrow> string option list" where
  "buyer_currencies env bundle_item =
     (let ep = execParams (item_buy bundle_item);
          currency = (if 1 < length ep then Some (ep ! 1) else None)
      in if currency = Some (weth env) then [currency] else [currency, Some (weth env)])"

definition expectedCost :: "nat \<Rightarrow> nat" where
  "expectedCost price = price * 11 div 10"

fun buyer_pass ::
  "chain \<Rightarrow> string \<Rightarrow> nat \<Rightarrow> string option list \<Rightarrow> FirestoreOrderMatchErrorCode option" where
  "buyer_pass env buyer price [] = None"
| "buyer_pass env buyer price (None # rest) = Some UnknownError"
| "buyer_pass env buyer price (Some currency # rest) =
     (case allowance env currency buyer (contract_address env) of
        None \<Rightarrow> Some UnknownError
      | Some allowed \<Rightarrow>
          if allowed < expectedCost price then Some InsufficientCurrencyAllowance
          else (case balanceOf env currency buyer of
                  None \<Rightarrow> Some UnknownError
                | Some balance \<Rightarrow>
                    if balance < expectedCost price then Some InsufficientCurrencyBalance
                    else buyer_pass env buyer price rest))"

definition buyer_verdict :: "chain \<Rightarrow> BundleItem \<Rightarrow> nat \<Rightarrow> FirestoreOrderMatchErrorCode option" where
  "buyer_verdict env bundle_item price =
     buyer_pass env (signer (item_buy bundle_item)) price (buyer_currencies env bundle_item)"

definition checkNftBuyerApprovalAndBalance ::
  "chain \<Rightarrow> ('t \<Rightarrow> BundleItem) \<Rightarrow> 't BundleItemWithCurrentPrice list \<Rightarrow> 't checked" where
  "checkNftBuyerApprovalAndBalance env view bundleItems =
     collect (map (\<lambda>bi. (bi, buyer_verdict env (view (item bi)) (currentPrice bi))) bundleItems)"

section \<open>Exchange: verifiers\<close>

text \<open>
  The price computation rests on library calls and on JavaScript doubles, whose type is
  the parameter \<open>'f\<close>: \<open>ether_float v\<close> is \<^verbatim>\<open>parseFloat(formatEther(v).toString())\<close>,
  \<open>to_ms v\<close> is \<^verbatim>\<open>BigNumber.from(v).toNumber() * 1000\<close>, \<open>getOBOrderPrice\<close> is the
  library's Dutch-auction curve (start price, start time, end price, end time, then the
  instant), \<open>BigNumber_from v\<close> the value of \<^verbatim>\<open>BigNumber.from(v)\<close>; each is \<open>None\<close> when it
  throws. \<open>now\<close> is \<^verbatim>\<open>Date.now()\<close>: the \<^verbatim>\<open>reduce\<close> that reads it runs without suspension, and
  its reads are taken as one instant.
\<close>

record 'f pricing =
  BigNumber_from :: "js_value \<Rightarrow> nat option"
  ether_float :: "js_value \<Rightarrow> 'f option"
  to_ms :: "js_value \<Rightarrow> 'f option"
  getOBOrderPrice :: "'f \<Rightarrow> 'f \<Rightarrow> 'f \<Rightarrow> 'f \<Rightarrow> nat \<Rightarrow> nat option"
  now :: nat


record 't verification =
  validAfterVerification :: "'t BundleItemWithCurrentPrice list"
  invalidFromVerify :: "'t list"



fun with_sell_price ::
  "'f pricing \<Rightarrow> MatchOrdersOneToOneBundleItem list
     \<Rightarrow> js_error + MatchOrdersOneToOneBundleItem BundleItemWithCurrentPrice list" where
  "with_sell_price p [] = Inr []"
| "with_sell_price p (bundle_item # rest) =
     (case BigNumber_from p (js_index (constraints (sell bundle_item)) 1) of
        None \<Rightarrow> Inl BigNumberError
      | Some price \<Rightarrow>
          (case with_sell_price p rest of
             Inl e \<Rightarrow> Inl e
           | Inr priced \<Rightarrow> Inr (\<lparr>item = bundle_item, currentPrice = price\<rparr> # priced)))"

definition matchOrdersOneToOneVerifier ::
  "'f pricing \<Rightarrow> MatchOrdersOneToOneBundleItem list
     \<Rightarrow> js_error + MatchOrdersOneToOneBundleItem verification" where
  "matchOrdersOneToOneVerifier p bundleItems =
     (case with_sell_price p bundleItems of
        Inl e \<Rightarrow> Inl e
      | Inr priced \<Rightarrow> Inr \<lparr>validAfterVerification = priced, invalidFromVerify = []\<rparr>)"

section \<open>Exchange: bundle packer\<close>

text \<open>
  \<^verbatim>\<open>numBundles\<close> is a JavaScript number that starts at 1 and is doubled or replaced by a
  \<^verbatim>\<open>Math.ceil\<close>; it is an extended natural number here, \<open>\<infinity>\<close> being \<^verbatim>\<open>Infinity\<close> (what
  dividing by a zero \<^verbatim>\<open>MAX_GAS_LIMIT\<close> gives). \<open>js_mod i k\<close> is \<^verbatim>\<open>i % k\<close>, \<open>None\<close> being
  \<^verbatim>\<open>NaN\<close>. A double holds every power of two below \<open>2 ^ 1024\<close> exactly and is \<^verbatim>\<open>Infinity\<close>
  from there on; the index of an item is below every such bundle count, so its remainder
  is the index itself in the source and in the model alike.
\<close>

definition js_mod :: "nat \<Rightarrow> enat \<Rightarrow> nat option" where
  "js_mod i k =
     (case k of \<infinity> \<Rightarrow> Some i | enat n \<Rightarrow> if n = 0 then None else Some (i mod n))"

text \<open>
  \<^verbatim>\<open>Math.ceil(n / m)\<close> for a count \<open>n\<close> of at least one (the source computes it only when
  some request is oversize). The quotient of a count of array elements by a natural number
  is never so close above an integer that the double division would round it down to it.
\<close>

definition js_ceil_div :: "nat \<Rightarrow> nat \<Rightarrow> enat" where
  "js_ceil_div n m = (if m = 0 then \<infinity> else enat ((n + m - 1) div m))"

text \<open>\<^verbatim>\<open>Array.prototype.reduce\<close> with the index as third argument of the callback.\<close>

fun reduce_from :: "nat \<Rightarrow> ('acc \<Rightarrow> 'a \<Rightarrow> nat \<Rightarrow> 'acc) \<Rightarrow> 'acc \<Rightarrow> 'a list \<Rightarrow> 'acc" where
  "reduce_from i f acc [] = acc"
| "reduce_from i f acc (x # xs) = reduce_from (Suc i) f (f acc x i) xs"

record order_bundle =
  sells :: "ChainOBOrder list"
  buys :: "ChainOBOrder list"
  bundle_constructed :: "ChainNFTs list list"

text \<open>
  \<^verbatim>\<open>acc[index] ?? {sells: [], buys: [], constructed: []}\<close> and \<^verbatim>\<open>acc[index] = bundle\<close>. The
  index written is never beyond the end of \<open>acc\<close> (lemma \<open>reduce_index_bound\<close> below), so
  a write that is not inside \<open>acc\<close> appends.
\<close>

definition bundle_at :: "order_bundle list \<Rightarrow> nat \<Rightarrow> order_bundle" where
  "bundle_at acc index =
     (if index < length acc then acc ! index
      else \<lparr>sells = [], buys = [], bundle_constructed = []\<rparr>)"

definition store_at :: "order_bundle list \<Rightarrow> nat \<Rightarrow> order_bundle \<Rightarrow> order_bundle list" where
  "store_at acc index b = (if index < length acc then acc[index := b] else acc @ [b])"

type_synonym MatchOrdersArgs = "ChainOBOrder list \<times> ChainOBOrder list \<times> ChainNFTs list list"
type_synonym MatchOrdersOneToOneArgs = "ChainOBOrder list \<times> ChainOBOrder list"

definition matchOrders_step ::
  "enat \<Rightarrow> order_bundle list \<Rightarrow> MatchOrdersBundleItem \<Rightarrow> nat \<Rightarrow> order_bundle list" where
  "matchOrders_step numBundles acc bundle_item currentIndex =
     (case js_mod currentIndex numBundles of
        None \<Rightarrow> acc
      | Some index \<Rightarrow>
          (let b = bundle_at acc index
           in store_at acc index
                (b\<lparr>sells := sells b @ [sell bundle_item],
                   buys := buys b @ [buy bundle_item],
                   bundle_constructed := bundle_constructed b @ [nfts (constructed bundle_item)]\<rparr>)))"

definition matchOrdersItemsToArgsTransformer ::
  "MatchOrdersBundleItem list \<Rightarrow> enat \<Rightarrow> MatchOrdersArgs list" where
  "matchOrdersItemsToArgsTransformer bundleItems numBundles =
     map (\<lambda>b. (sells b, buys b, bundle_constructed b))
       (reduce_from 0 (matchOrders_step numBundles) [] bundleItems)"

definition matchOrdersOneToOne_step ::
  "enat \<Rightarrow> order_bundle list \<Rightarrow> MatchOrdersOneToOneBundleItem \<Rightarrow> nat \<Rightarrow> order_bundle list" where
  "matchOrdersOneToOne_step numBundles acc bundle_item currentIndex =
     (case js_mod currentIndex numBundles of
        None \<Rightarrow> acc
      | Some index \<Rightarrow>
          (let b = bundle_at acc index
           in store_at acc index
                (b\<lparr>sells := sells b @ [sell bundle_item],
                   buys := buys b @ [buy bundle_item]\<rparr>)))"

definition matchOrdersOneToOneItemsToArgsTransformer ::
  "MatchOrdersOneToOneBundleItem list \<Rightarrow> enat \<Rightarrow> MatchOrdersOneToOneArgs list" where
  "matchOrdersOneToOneItemsToArgsTransformer bundleItems numBundles =
     map (\<lambda>b. (sells b, buys b))
       (reduce_from 0 (matchOrdersOneToOne_step numBundles) [] bundleItems)"

text \<open>
  The packer's surroundings: \<open>MAX_GAS_LIMIT\<close> is the constant of \<^verbatim>\<open>utils/constants\<close>,
  \<open>encodeCallData\<close> the calldata encoder of the bundle type, \<open>estimateGas to from data\<close> the
  provider's estimate read with \<^verbatim>\<open>toNumber()\<close>, \<open>floor_headroom e\<close> is
  \<^verbatim>\<open>Math.floor(e * 1.2)\<close> in double arithmetic, \<open>chain_number\<close> is \<^verbatim>\<open>parseInt(chainId)\<close>.
  A throw is \<open>None\<close>.
\<close>

record ('args, 'data) packer =
  signerAddress :: string
  chain_number :: nat
  MAX_GAS_LIMIT :: nat
  encodeCallData :: "'args \<Rightarrow> 'data option"
  estimateGas :: "string \<Rightarrow> string \<Rightarrow> 'data \<Rightarrow> nat option"
  floor_headroom :: "nat \<Rightarrow> nat"

record 'data TransactionRequest =
  tx_to :: string
  gasLimit :: nat
  data :: 'data
  tx_chainId :: nat
  tx_type :: nat

text \<open>The callback of \<^verbatim>\<open>bundleArgs.map\<close>: the \<^verbatim>\<open>catch\<close> returns \<^verbatim>\<open>undefined\<close> (\<open>None\<close>).\<close>

definition try_request ::
  "chain \<Rightarrow> ('args, 'data) packer \<Rightarrow> 'args \<Rightarrow> 'data TransactionRequest option" where
  "try_request env pk args =
     (case encodeCallData pk args of
        None \<Rightarrow> None
      | Some d \<Rightarrow>
         (case estimateGas pk (contract_address env) (signerAddress pk) d of
            None \<Rightarrow> None
          | Some estimate \<Rightarrow>
              Some \<lparr>tx_to = contract_address env,
                    gasLimit = floor_headroom pk estimate,
                    data = d,
                    tx_chainId = chain_number pk,
                    tx_type = 2\<rparr>))"

definition transactionRequests ::
  "chain \<Rightarrow> ('args, 'data) packer \<Rightarrow> ('t list \<Rightarrow> enat \<Rightarrow> 'args list) \<Rightarrow> 't list \<Rightarrow> enat
     \<Rightarrow> 'data TransactionRequest list" where
  "transactionRequests env pk bundleItemsToArgs bundleItems numBundles =
     List.map_filter (try_request env pk) (bundleItemsToArgs bundleItems numBundles)"

definition transactionsTooBig :: "('args, 'data) packer \<Rightarrow> 'data TransactionRequest list \<Rightarrow> bool" where
  "transactionsTooBig pk txs = list_ex (\<lambda>txRequest. gasLimit txRequest > MAX_GAS_LIMIT pk) txs"

definition estimatedNumBundles :: "('args, 'data) packer \<Rightarrow> 'data TransactionRequest list \<Rightarrow> enat" where
  "estimatedNumBundles pk txs = js_ceil_div (length txs) (MAX_GAS_LIMIT pk)"

definition updatedNumBundles ::
  "('args, 'data) packer \<Rightarrow> 'data TransactionRequest list \<Rightarrow> enat \<Rightarrow> enat" where
  "updatedNumBundles pk txs numBundles =
     (if numBundles \<ge> estimatedNumBundles pk txs then numBundles * 2
      else estimatedNumBundles pk txs)"

record ('data, 't) built =
  txRequests :: "'data TransactionRequest list"
  invalidBundleItems :: "'t list"

text \<open>\<^verbatim>\<open>buildBundles\<close>; \<open>None\<close> is a call that never returns.\<close>

partial_function (option) buildBundles ::
  "chain \<Rightarrow> ('args, 'data) packer \<Rightarrow> ('t list \<Rightarrow> enat \<Rightarrow> 'args list) \<Rightarrow> 't list \<Rightarrow> enat
     \<Rightarrow> ('data, 't) built option" where
  "buildBundles env pk bundleItemsToArgs bundleItems numBundles =
     (let txs = transactionRequests env pk bundleItemsToArgs bundleItems numBundles
      in if transactionsTooBig pk txs
         then buildBundles env pk bundleItemsToArgs bundleItems (updatedNumBundles pk txs numBundles)
         else Some \<lparr>txRequests = txs, invalidBundleItems = []\<rparr>)"

section \<open>Exchange: the encoder\<close>

text \<open>
  The encoder keeps three things while it runs the passes: the items still valid, its
  local list \<^verbatim>\<open>invalidBundleItems\<close> of rejected items with their error (\<open>rejected\<close> here)
  and the verifier's own list \<^verbatim>\<open>invalidBundleItemsFromVerify\<close>. \<open>encoder_passes\<close> is the
  encoder up to the test of \<^verbatim>\<open>minBundleSize\<close>; the verifier's throw is the encoder's.
\<close>

record 't passes =
  still_valid :: "'t BundleItemWithCurrentPrice list"
  rejected :: "'t InvalidBundleItem list"
  invalidBundleItemsFromVerify :: "'t list"

definition encoder_passes ::
  "chain \<Rightarrow> ('t \<Rightarrow> BundleItem) \<Rightarrow> ('t list \<Rightarrow> js_error + 't verification) \<Rightarrow> 't list
     \<Rightarrow> js_error + 't passes" where
  "encoder_passes env view verifyBundleItems bundleItems =
     (case verifyBundleItems bundleItems of
        Inl e \<Rightarrow> Inl e
      | Inr v \<Rightarrow>
         (let invalidBundleItemsFromVerifyWithError =
                map (\<lambda>invalidItem. \<lparr>bundleItem = invalidItem, orderError = OrderInvalid\<rparr>)
                  (invalidFromVerify v);
              valid0 = validAfterVerification v;
              invalid0 = [] @ invalidBundleItemsFromVerifyWithError;
              afterNftApproval = checkNftSellerApprovalAndBalance env view valid0;
              valid1 = validBundleItems afterNftApproval;
              invalid1 = invalid0 @ invalidWithError afterNftApproval;
              afterCurrencyCheck = checkNftBuyerApprovalAndBalance env view valid1;
              valid2 = validBundleItems afterCurrencyCheck;
              invalid2 = invalid1 @ invalidWithError afterCurrencyCheck
          in Inr \<lparr>still_valid = valid2, rejected = invalid2,
                  invalidBundleItemsFromVerify = invalidFromVerify v\<rparr>))"

text \<open>
  The encoder: \<open>None\<close> when it never settles, \<open>Some (Inl e)\<close> when it rejects with \<open>e\<close>,
  \<open>Some (Inr r)\<close> when it resolves to \<open>r\<close>.
\<close>

definition encoder ::
  "chain \<Rightarrow> ('args, 'data) packer \<Rightarrow> ('t \<Rightarrow> BundleItem)
     \<Rightarrow> ('t list \<Rightarrow> js_error + 't verification) \<Rightarrow> ('t list \<Rightarrow> enat \<Rightarrow> 'args list)
     \<Rightarrow> 't list \<Rightarrow> int \<Rightarrow> (js_error + ('data, 't) built) option" where
  "encoder env pk view verifyBundleItems bundleItemsToArgs bundleItems minBundleSize =
     (case encoder_passes env view verifyBundleItems bundleItems of
        Inl e \<Rightarrow> Some (Inl e)
      | Inr st \<Rightarrow>
          if int (length (still_valid st)) < minBundleSize
          then Some (Inr \<lparr>txRequests = [], invalidBundleItems = invalidBundleItemsFromVerify st\<rparr>)
          else (case buildBundles env pk bundleItemsToArgs (map item (still_valid st)) 1 of
                  None \<Rightarrow> None
                | Some b \<Rightarrow>
                    Some (Inr \<lparr>txRequests = txRequests b,
                               invalidBundleItems =
                                 invalidBundleItemsFromVerify st @ invalidBundleItems b\<rparr>)))"


definition matchOrdersOneToOneEncoder ::
  "chain \<Rightarrow> (MatchOrdersOneToOneArgs, 'data) packer \<Rightarrow> 'f pricing
     \<Rightarrow> MatchOrdersOneToOneBundleItem list \<Rightarrow> int
     \<Rightarrow> (js_error + ('data, MatchOrdersOneToOneBundleItem) built) option" where
  "matchOrdersOneToOneEncoder env pk p =
     encoder env pk MatchOrdersOneToOneItem (matchOrdersOneToOneVerifier p)
       matchOrdersOneToOneItemsToArgsTransformer"

declare buildBundles.simps [code]

section \<open>Notions used in the statements\<close>

text \<open>
  The bundle count of the recursive call that \<^verbatim>\<open>buildBundles\<close> makes from \<open>numBundles\<close>, and
  whether it makes one.
\<close>

definition next_numBundles ::
  "chain \<Rightarrow> ('args, 'data) packer \<Rightarrow> ('t list \<Rightarrow> enat \<Rightarrow> 'args list) \<Rightarrow> 't list \<Rightarrow> enat \<Rightarrow> enat" where
  "next_numBundles env pk bundleItemsToArgs bundleItems numBundles =
     updatedNumBundles pk (transactionRequests env pk bundleItemsToArgs bundleItems numBundles) numBundles"

definition oversize_at ::
  "chain \<Rightarrow> ('args, 'data) packer \<Rightarrow> ('t list \<Rightarrow> enat \<Rightarrow> 'args list) \<Rightarrow> 't list \<Rightarrow> enat \<Rightarrow> bool" where
  "oversize_at env pk bundleItemsToArgs bundleItems numBundles =
     transactionsTooBig pk (transactionRequests env pk bundleItemsToArgs bundleItems numBundles)"

text \<open>
  \<open>returns_after env pk tr items k r\<close>: the re-splitting that starts at \<open>k\<close> reaches, after
  some number \<open>n\<close> of oversize rounds, a bundle count at which no request is oversize, and
  \<open>r\<close> is the result built there.
\<close>

definition returns_after ::
  "chain \<Rightarrow> ('args, 'data) packer \<Rightarrow> ('t list \<Rightarrow> enat \<Rightarrow> 'args list) \<Rightarrow> 't list \<Rightarrow> enat
     \<Rightarrow> ('data, 't) built \<Rightarrow> bool" where
  "returns_after env pk tr items k r \<longleftrightarrow>
     (\<exists>n. (\<forall>m<n. oversize_at env pk tr items ((next_numBundles env pk tr items ^^ m) k)) \<and>
          \<not> oversize_at env pk tr items ((next_numBundles env pk tr items ^^ n) k) \<and>
          r = \<lparr>txRequests = transactionRequests env pk tr items ((next_numBundles env pk tr items ^^ n) k),
               invalidBundleItems = []\<rparr>)"

text \<open>A currency passes the buyer's two checks at a price.\<close>

definition currency_ok :: "chain \<Rightarrow> string \<Rightarrow> nat \<Rightarrow> string option \<Rightarrow> bool" where
  "currency_ok env buyer price c \<longleftrightarrow>
     (case c of
        None \<Rightarrow> False
      | Some currency \<Rightarrow>
          (case allowance env currency buyer (contract_address env) of
             None \<Rightarrow> False
           | Some allowed \<Rightarrow>
               expectedCost price \<le> allowed \<and>
               (case balanceOf env currency buyer of
                  None \<Rightarrow> False
                | Some balance \<Rightarrow> expectedCost price \<le> balance)))"



section \<open>Scenarios\<close>

text \<open>
  Concrete surroundings and inputs, for the statements below to be run on. The library
  functions are instantiated on decimal strings and on non-negative safe integers, which
  is all the scenarios contain; doubles are instantiated by natural numbers.
\<close>

definition digit_value :: "char \<Rightarrow> nat option" where
  "digit_value c =
     (let n = (of_char c :: nat) in if 48 \<le> n \<and> n \<le> 57 then Some (n - 48) else None)"

fun decimal_from :: "nat \<Rightarrow> string \<Rightarrow> nat option" where
  "decimal_from acc [] = Some acc"
| "decimal_from acc (c # cs) =
     (case digit_value c of None \<Rightarrow> None | Some d \<Rightarrow> decimal_from (10 * acc + d) cs)"

definition decimal_value :: "js_value \<Rightarrow> nat option" where
  "decimal_value v =
     (case v of
        JSString s \<Rightarrow> if s = [] then None else decimal_from 0 s
      | JSNumber n \<Rightarrow> if 0 \<le> n \<and> n < 2 ^ 53 then Some (nat n) else None
      | JSUndefined \<Rightarrow> None)"

fun decimal_string :: "nat \<Rightarrow> string" where
  "decimal_string n =
     (if n < 10 then [''0123456789'' ! n]
      else decimal_string (n div 10) @ [''0123456789'' ! (n mod 10)])"

definition decimal_toString :: "js_value \<Rightarrow> string option" where
  "decimal_toString v = map_option decimal_string (decimal_value v)"

definition exchange_address :: string where
  "exchange_address = ''0xbada5500000000000000000000000000000000ee''"

definition weth_address :: string where
  "weth_address = ''0xc02aaa39b223fe8d0a0e5c4f27ead9083c756cc2''"

definition complication_address :: string where
  "complication_address = ''0x00000000000000000000000000000000000000cc''"

definition collection_address :: string where
  "collection_address = ''0x00000000000000000000000000000000000000c0''"

definition seller_address :: string where
  "seller_address = ''0xab5801a7d398351b8be11c439e05c5b3259aec9b''"

text \<open>The same address in its checksummed spelling, as a contract call returns it.\<close>

definition seller_checksummed :: string where
  "seller_checksummed = ''0xAb5801a7D398351b8bE11C439e05C5B3259aeC9B''"

definition dai_address :: string where
  "dai_address = ''0x6b175474e89094c44da98b954eedeac495271d0f''"

definition buyer_address :: string where
  "buyer_address = ''0x00000000000000000000000000000000000000b1''"

definition token_7 :: TokenInfo where
  "token_7 = \<lparr>tokenId = ''7'', numTokens = 1\<rparr>"

definition sell_order :: ChainOBOrder where
  "sell_order =
     \<lparr>isSellOrder = True, signer = seller_address,
      constraints = [JSString ''1'', JSString ''1000000000000000000'', JSString ''1000000000000000000'',
                     JSString ''1650000000'', JSString ''1660000000'', JSString ''7''],
      nfts = [\<lparr>collection = collection_address, tokens = [token_7]\<rparr>],
      execParams = [complication_address, weth_address],
      extraParams = ''0x'', sig = ''0x5e11''\<rparr>"

definition buy_order :: ChainOBOrder where
  "buy_order =
     \<lparr>isSellOrder = False, signer = buyer_address,
      constraints = [JSString ''1'', JSString ''1200000000000000000'', JSString ''1200000000000000000'',
                     JSString ''1650000000'', JSString ''1660000000'', JSString ''9''],
      nfts = [\<lparr>collection = collection_address, tokens = [token_7]\<rparr>],
      execParams = [complication_address, weth_address],
      extraParams = ''0x'', sig = ''0xb1d0''\<rparr>"

definition one_to_one_item :: MatchOrdersOneToOneBundleItem where
  "one_to_one_item =
     \<lparr>item_id = ''m1'', item_chainId = ''1'', exchangeAddress = exchange_address,
      sell = sell_order, buy = buy_order, buyOrderHash = ''0xb'', sellOrderHash = ''0xa''\<rparr>"

definition second_item :: MatchOrdersOneToOneBundleItem where
  "second_item = one_to_one_item\<lparr>item_id := ''m2''\<rparr>"

text \<open>An item whose order currency is not the wrapped native currency.\<close>

definition dai_item :: MatchOrdersOneToOneBundleItem where
  "dai_item =
     one_to_one_item\<lparr>item_id := ''m6'',
       buy := buy_order\<lparr>execParams := [complication_address, dai_address]\<rparr>\<rparr>"

text \<open>An item whose seller address is stored in the checksummed spelling.\<close>

definition checksummed_item :: MatchOrdersOneToOneBundleItem where
  "checksummed_item = one_to_one_item\<lparr>sell := sell_order\<lparr>signer := seller_checksummed\<rparr>\<rparr>"

definition scenario_constructed :: ChainOBOrder where
  "scenario_constructed =
     \<lparr>isSellOrder = False, signer = seller_address,
      constraints = [JSNumber 1, JSString ''1200000000000000000'', JSString ''1200000000000000000'',
                     JSString ''1650000000'', JSString ''1660000000'', JSString ''9''],
      nfts = [\<lparr>collection = collection_address, tokens = [token_7]\<rparr>],
      execParams = [complication_address, weth_address],
      extraParams = ''0x'', sig = ''0x5e11''\<rparr>"

definition match_orders_item :: MatchOrdersBundleItem where
  "match_orders_item =
     \<lparr>item_id = ''m3'', item_chainId = ''1'', exchangeAddress = exchange_address,
      sell = sell_order, buy = buy_order, buyOrderHash = ''0xb'', sellOrderHash = ''0xa'',
      constructed = scenario_constructed\<rparr>"



definition refused_item :: MatchOrdersBundleItem where
  "refused_item = match_orders_item\<lparr>item_id := ''m4'', sellOrderHash := ''0xf''\<rparr>"


text \<open>
  A chain on which everything is in order: the exchange is approved, the seller owns the
  token, the buyer has allowance and balance of twice the price. The contract accepts the
  pair whose sell hash is \<open>0xa\<close>, answers \<^verbatim>\<open>false\<close> for \<open>0xf\<close> and fails for any other.
\<close>

definition happy_chain :: chain where
  "happy_chain =
     \<lparr>contract_address = exchange_address, weth = weth_address,
      verifyMatchOrders =
        (\<lambda>sellHash _ _ _. if sellHash = ''0xa'' then Fulfilled True
                          else if sellHash = ''0xf'' then Fulfilled False else Rejected),
      isApprovedForAll = (\<lambda>_ _ _. Some True),
      ownerOf = (\<lambda>_ _. Some seller_checksummed),
      allowance = (\<lambda>_ _ _. Some 2000000000000000000),
      balanceOf = (\<lambda>_ _. Some 2000000000000000000)\<rparr>"

definition unapproved_chain :: chain where
  "unapproved_chain = happy_chain\<lparr>isApprovedForAll := (\<lambda>_ _ _. Some False)\<rparr>"

text \<open>
  Two chains on which the buyer is short of the wrapped native currency by one unit of the
  expected cost of a price of \<open>10 ^ 18\<close>: in allowance on the first, in balance on the second.
\<close>

definition short_allowance_chain :: chain where
  "short_allowance_chain =
     happy_chain\<lparr>allowance :=
       (\<lambda>currency _ _. if currency = weth_address then Some 1099999999999999999
                        else Some 2000000000000000000)\<rparr>"

definition short_balance_chain :: chain where
  "short_balance_chain =
     happy_chain\<lparr>balanceOf :=
       (\<lambda>currency _. if currency = weth_address then Some 1099999999999999999
                      else Some 2000000000000000000)\<rparr>"

text \<open>
  A chain on which the buyer is short of balance in the order currency of \<open>dai_item\<close> and
  short of allowance in the wrapped native currency.
\<close>

definition both_short_chain :: chain where
  "both_short_chain =
     happy_chain\<lparr>allowance :=
                   (\<lambda>currency _ _. if currency = weth_address then Some 5
                                    else Some 2000000000000000000),
                 balanceOf :=
                   (\<lambda>currency _. if currency = dai_address then Some 7
                                  else Some 2000000000000000000)\<rparr>"

definition linear_price :: "nat \<Rightarrow> nat \<Rightarrow> nat \<Rightarrow> nat \<Rightarrow> nat \<Rightarrow> nat option" where
  "linear_price startPrice startTime endPrice endTime t =
     (if endTime \<le> startTime \<or> t \<le> startTime then Some startPrice
      else if endTime \<le> t then Some endPrice
      else if endPrice \<le> startPrice
        then Some (startPrice - (startPrice - endPrice) * (t - startTime) div (endTime - startTime))
        else Some (startPrice + (endPrice - startPrice) * (t - startTime) div (endTime - startTime)))"

text \<open>
  A pricing on natural numbers: prices in wei, times in milliseconds, a linear
  interpolation as the curve, and the clock in the middle of the interval of the scenario
  orders. As \<^verbatim>\<open>toNumber()\<close> does, the conversion of a time throws from \<open>2 ^ 53\<close> on.
\<close>

definition integer_pricing :: "nat pricing" where
  "integer_pricing =
     \<lparr>BigNumber_from = decimal_value,
      ether_float = decimal_value,
      to_ms =
        (\<lambda>v. case decimal_value v of
               None \<Rightarrow> None
             | Some seconds \<Rightarrow> if seconds < 2 ^ 53 then Some (seconds * 1000) else None),
      getOBOrderPrice = linear_price,
      now = 1655000000000\<rparr>"

text \<open>
  A packer whose gas estimate is \<open>g\<close> for each match in the call, with a ceiling of thirty
  million; the calldata stands for the arguments it encodes.
\<close>

definition gas_per_match :: "nat \<Rightarrow> ('a list \<times> 'b, 'a list \<times> 'b) packer" where
  "gas_per_match g =
     \<lparr>signerAddress = ''0x00000000000000000000000000000000000000f1'',
      chain_number = 1,
      MAX_GAS_LIMIT = 30000000,
      encodeCallData = Some,
      estimateGas = (\<lambda>_ _ args. Some (g * length (fst args))),
      floor_headroom = (\<lambda>estimate. estimate * 6 div 5)\<rparr>"

text \<open>A packer for which every gas estimation fails.\<close>

definition no_estimate :: "('a list \<times> 'b, 'a list \<times> 'b) packer" where
  "no_estimate = (gas_per_match 20000000)\<lparr>estimateGas := (\<lambda>_ _ _. None)\<rparr>"

text \<open>The datastore of the builder's scenarios: two listings and one offer.\<close>

definition raw_sell_order :: ChainOBOrder where
  "raw_sell_order =
     sell_order\<lparr>constraints :=
        [JSNumber 1, JSString ''1000000000000000000'', JSString ''1000000000000000000'',
         JSNumber 1650000000, JSNumber 1660000000, JSNumber 7]\<rparr>"

definition listing_doc :: FirestoreOrder where
  "listing_doc =
     \<lparr>order_isSellOrder = True, order_chainId = ''1'', signedOrder = raw_sell_order,
      nonce = JSString ''7'', complicationAddress = complication_address,
      currencyAddress = weth_address\<rparr>"

definition offer_doc :: FirestoreOrder where
  "offer_doc =
     \<lparr>order_isSellOrder = False, order_chainId = ''1'', signedOrder = buy_order,
      nonce = JSString ''9'', complicationAddress = complication_address,
      currencyAddress = weth_address\<rparr>"

definition orders_store :: "string \<Rightarrow> FirestoreOrder option" where
  "orders_store ident =
     (if ident = ''listing1'' \<or> ident = ''listing2'' then Some listing_doc
      else if ident = ''offer1'' then Some offer_doc else None)"

definition store_provider :: provider where
  "store_provider =
     \<lparr>bn_toString = decimal_toString,
      orderHash = (\<lambda>ord. Some (sig ord)),
      getExchangeAddress = (\<lambda>_. exchange_address),
      getAll = (\<lambda>idents. Some (map orders_store idents))\<rparr>"

definition match_items :: "(string \<times> OrderItemCollection) list" where
  "match_items =
     [(collection_address,
       \<lparr>collectionAddress = collection_address, collection_tokens = [(''7'', token_7)]\<rparr>),
      (complication_address,
       \<lparr>collectionAddress = complication_address, collection_tokens = []\<rparr>)]"

definition one_to_one_match :: FirestoreOrderMatch where
  "one_to_one_match =
     \<lparr>ids = [''listing1'', ''offer1''], orderItems = match_items,
      match_type = MatchOneToOneOrdersMethod, state_status = Active\<rparr>"

definition match_orders_match :: FirestoreOrderMatch where
  "match_orders_match = one_to_one_match\<lparr>match_type := MatchOrdersMethod\<rparr>"

definition two_listings_match :: FirestoreOrderMatch where
  "two_listings_match = one_to_one_match\<lparr>ids := [''listing1'', ''listing2'']\<rparr>"

definition crowded_match :: FirestoreOrderMatch where
  "crowded_match = one_to_one_match\<lparr>ids := [''listing1'', ''listing2'', ''offer1'']\<rparr>"

section \<open>Bundle item builder: properties\<close>

lemma flatten_tokens_eq:
  "flatten_tokens ts (acc, n) = (acc @ ts, n + length ts)"
  by (induction ts arbitrary: acc n) simp_all

lemma flatten_collections_eq:
  "flatten_collections cs (acc, n) =
     (acc @ map (\<lambda>c. \<lparr>collection = collectionAddress c, tokens = map snd (collection_tokens c)\<rparr>) cs,
      n + (\<Sum>c\<leftarrow>cs. max 1 (length (collection_tokens c))))"
  by (induction cs arbitrary: acc n) (auto simp: flatten_tokens_eq max_def Suc_le_eq)

text \<open>
  C9. The flattening emits one entry per collection of \<^verbatim>\<open>orderItems\<close>, in the order of the
  object's properties, with the collection's tokens in their order (an empty list for a
  collection without tokens), and \<^verbatim>\<open>numMatches\<close> is the sum over the collections of the
  number of tokens, counted as one for a collection without tokens.
\<close>

theorem flattening_entries_and_numMatches:
  "flatten_order_items match =
     (map (\<lambda>c. \<lparr>collection = collectionAddress c, tokens = map snd (collection_tokens c)\<rparr>)
        (map snd (orderItems match)),
      (\<Sum>c\<leftarrow>map snd (orderItems match). max 1 (length (collection_tokens c))))"
  by (simp add: flatten_order_items_def flatten_collections_eq)

theorem flattening_entries_and_numMatches_witness:
  "flatten_order_items match_orders_match =
     ([\<lparr>collection = collection_address, tokens = [token_7]\<rparr>,
       \<lparr>collection = complication_address, tokens = []\<rparr>], 2)"
  using flattening_entries_and_numMatches [of match_orders_match]
  by (simp add: match_orders_match_def one_to_one_match_def match_items_def)

lemma normalize_Inr: "normalize env v = Inr w \<Longrightarrow> bn_toString env v \<noteq> None \<and> w = JSString (the (bn_toString env v))"
  by (auto simp: normalize_def split: option.splits)

lemma normalize_all_Inr:
  "normalize_all env vs = Inr ws \<Longrightarrow> ws = map (\<lambda>v. JSString (the (bn_toString env v))) vs"
  by (induction vs arbitrary: ws) (auto split: sum.splits dest: normalize_Inr)

lemma getMatchOrdersBundle_constructed:
  assumes "getMatchOrdersBundle env ident listing offer numMatches chainNfts = Inr i"
  shows "\<exists>startPrice endPrice.
     bn_toString env (js_index (constraints (signedOrder offer)) 1) = Some startPrice \<and>
     bn_toString env (js_index (constraints (signedOrder offer)) 2) = Some endPrice \<and>
     constructed i =
     \<lparr>isSellOrder = False,
      signer = signer (signedOrder listing),
      constraints =
        [JSNumber (int numMatches), JSString startPrice, JSString endPrice,
         js_index (constraints (signedOrder offer)) 3,
         js_index (constraints (signedOrder offer)) 4,
         nonce offer],
      nfts = chainNfts,
      execParams = [complicationAddress listing, currencyAddress listing],
      extraParams = extraParams (signedOrder listing),
      sig = sig (signedOrder listing)\<rparr>"
  using assms unfolding getMatchOrdersBundle_def
  by (auto simp: Let_def split: sum.splits option.splits dest!: normalize_Inr)

text \<open>The sibling path: the \<^verbatim>\<open>MatchOrders\<close> item holds both signed orders with every entry
  of \<^verbatim>\<open>constraints\<close> replaced by its decimal string.\<close>

lemma getMatchOrdersBundle_normalizes:
  assumes "getMatchOrdersBundle env ident listing offer numMatches chainNfts = Inr i"
  shows "constraints (sell i) = map (\<lambda>v. JSString (the (bn_toString env v))) (constraints (signedOrder listing))"
    and "constraints (buy i) = map (\<lambda>v. JSString (the (bn_toString env v))) (constraints (signedOrder offer))"
  using assms unfolding getMatchOrdersBundle_def
  by (auto simp: Let_def split: sum.splits option.splits dest!: normalize_all_Inr)

text \<open>
  C10. For a match of type \<^verbatim>\<open>MatchOrders\<close> for which the builder returns an item, the
  item is a \<^verbatim>\<open>MatchOrders\<close> item whose \<^verbatim>\<open>constructed\<close> order has \<^verbatim>\<open>isSellOrder = false\<close>;
  signer, \<^verbatim>\<open>extraParams\<close> and signature of the listing's signed order; \<^verbatim>\<open>execParams\<close> made of
  the listing's complication and currency addresses; and as \<^verbatim>\<open>constraints\<close> the number of
  matches of the flattening, the decimal strings of the offer's entries 1 and 2, the
  offer's entries 3 and 4 and the offer's nonce; its \<^verbatim>\<open>nfts\<close> are the flattened entries.
\<close>

theorem constructed_order_fields:
  assumes "match_type match = MatchOrdersMethod"
    and "createBundleItem env ident listing offer match = Inr bundle_item"
  shows "\<exists>i startPrice endPrice.
     bundle_item = MatchOrdersItem i \<and>
     bn_toString env (js_index (constraints (signedOrder offer)) 1) = Some startPrice \<and>
     bn_toString env (js_index (constraints (signedOrder offer)) 2) = Some endPrice \<and>
     constructed i =
       \<lparr>isSellOrder = False,
        signer = signer (signedOrder listing),
        constraints =
          [JSNumber (int (snd (flatten_order_items match))), JSString startPrice, JSString endPrice,
           js_index (constraints (signedOrder offer)) 3,
           js_index (constraints (signedOrder offer)) 4,
           nonce offer],
        nfts = fst (flatten_order_items match),
        execParams = [complicationAddress listing, currencyAddress listing],
        extraParams = extraParams (signedOrder listing),
        sig = sig (signedOrder listing)\<rparr>"
proof -
  obtain chainNfts numMatches where f: "flatten_order_items match = (chainNfts, numMatches)"
    by (cases "flatten_order_items match")
  from assms f obtain i where
    i: "getMatchOrdersBundle env ident listing offer numMatches chainNfts = Inr i"
       "bundle_item = MatchOrdersItem i"
    by (auto simp: createBundleItem_def split: sum.splits)
  from getMatchOrdersBundle_constructed[OF i(1)] i(2) f show ?thesis by auto
qed


lemma digit_values:
  "digit_value CHR ''0'' = Some 0" "digit_value CHR ''1'' = Some 1" "digit_value CHR ''2'' = Some 2"
  "digit_value CHR ''3'' = Some 3" "digit_value CHR ''4'' = Some 4" "digit_value CHR ''5'' = Some 5"
  "digit_value CHR ''6'' = Some 6" "digit_value CHR ''7'' = Some 7" "digit_value CHR ''8'' = Some 8"
  "digit_value CHR ''9'' = Some 9"
  by (simp_all add: digit_value_def)

lemma decimal_value_strings:
  "decimal_value (JSString ''1'') = Some 1"
  "decimal_value (JSString ''7'') = Some 7"
  "decimal_value (JSString ''9'') = Some 9"
  "decimal_value (JSString ''1000000000000000000'') = Some 1000000000000000000"
  "decimal_value (JSString ''1200000000000000000'') = Some 1200000000000000000"
  "decimal_value (JSString ''1650000000'') = Some 1650000000"
  "decimal_value (JSString ''1660000000'') = Some 1660000000"
  by (simp_all add: decimal_value_def digit_values)

lemma decimal_strings:
  "decimal_string 1 = ''1''"
  "decimal_string 7 = ''7''"
  "decimal_string 9 = ''9''"
  "decimal_string 1000000000000000000 = ''1000000000000000000''"
  "decimal_string 1200000000000000000 = ''1200000000000000000''"
  "decimal_string 1650000000 = ''1650000000''"
  "decimal_string 1660000000 = ''1660000000''"
  by simp_all

lemma decimal_value_numbers:
  "decimal_value (JSNumber 1) = Some 1"
  "decimal_value (JSNumber 7) = Some 7"
  "decimal_value (JSNumber 1650000000) = Some 1650000000"
  "decimal_value (JSNumber 1660000000) = Some 1660000000"
  by (simp_all add: decimal_value_def)

lemma store_toString:
  "bn_toString store_provider (JSNumber 1) = Some ''1''"
  "bn_toString store_provider (JSNumber 7) = Some ''7''"
  "bn_toString store_provider (JSNumber 1650000000) = Some ''1650000000''"
  "bn_toString store_provider (JSNumber 1660000000) = Some ''1660000000''"
  "bn_toString store_provider (JSString ''1'') = Some ''1''"
  "bn_toString store_provider (JSString ''9'') = Some ''9''"
  "bn_toString store_provider (JSString ''1000000000000000000'') = Some ''1000000000000000000''"
  "bn_toString store_provider (JSString ''1200000000000000000'') = Some ''1200000000000000000''"
  "bn_toString store_provider (JSString ''1650000000'') = Some ''1650000000''"
  "bn_toString store_provider (JSString ''1660000000'') = Some ''1660000000''"
  by (simp_all add: store_provider_def decimal_toString_def decimal_value_numbers
      decimal_value_strings decimal_strings)

lemma normalize_raw_sell_order:
  "normalize_all store_provider (constraints raw_sell_order) =
     Inr [JSString ''1'', JSString ''1000000000000000000'', JSString ''1000000000000000000'',
          JSString ''1650000000'', JSString ''1660000000'', JSString ''7'']"
  by (simp add: raw_sell_order_def normalize_def store_toString)

lemma normalize_buy_order:
  "normalize_all store_provider (constraints buy_order) = Inr (constraints buy_order)"
  by (simp add: buy_order_def normalize_def store_toString)

lemma read_one_to_one_match:
  "getOrders store_provider one_to_one_match = Inr (listing_doc, offer_doc)"
  by (simp add: getOrders_def store_provider_def one_to_one_match_def orders_store_def
      is_listing_def is_offer_def listing_doc_def offer_doc_def)

lemma read_match_orders_match:
  "getOrders store_provider match_orders_match = Inr (listing_doc, offer_doc)"
  by (simp add: getOrders_def store_provider_def match_orders_match_def one_to_one_match_def
      orders_store_def is_listing_def is_offer_def listing_doc_def offer_doc_def)

text \<open>
  C5, on the \<^verbatim>\<open>MatchOneToOneOrders\<close> path. The listing of the scenario holds JavaScript
  numbers in its \<^verbatim>\<open>constraints\<close>; their decimal strings exist, yet the item built for the
  one-to-one match carries the listing's signed order as it was read, numbers included.
\<close>

theorem one_to_one_item_keeps_raw_constraints:
  "build_item store_provider ''m1'' one_to_one_match =
     Inr (MatchOrdersOneToOneItem
       \<lparr>item_id = ''m1'', item_chainId = ''1'', exchangeAddress = exchange_address,
        sell = raw_sell_order, buy = buy_order,
        buyOrderHash = ''0xb1d0'', sellOrderHash = ''0x5e11''\<rparr>) \<and>
   constraints raw_sell_order =
     [JSNumber 1, JSString ''1000000000000000000'', JSString ''1000000000000000000'',
      JSNumber 1650000000, JSNumber 1660000000, JSNumber 7] \<and>
   normalize_all store_provider (constraints raw_sell_order) =
     Inr [JSString ''1'', JSString ''1000000000000000000'', JSString ''1000000000000000000'',
          JSString ''1650000000'', JSString ''1660000000'', JSString ''7'']"
proof -
  have "createBundleItem store_provider ''m1'' listing_doc offer_doc one_to_one_match =
     Inr (MatchOrdersOneToOneItem
       \<lparr>item_id = ''m1'', item_chainId = ''1'', exchangeAddress = exchange_address,
        sell = raw_sell_order, buy = buy_order,
        buyOrderHash = ''0xb1d0'', sellOrderHash = ''0x5e11''\<rparr>)"
    by (simp add: createBundleItem_def one_to_one_match_def store_provider_def listing_doc_def
        offer_doc_def raw_sell_order_def sell_order_def buy_order_def split: prod.splits)
  moreover have "state_status one_to_one_match = Active"
    by (simp add: one_to_one_match_def)
  ultimately have "build_item store_provider ''m1'' one_to_one_match =
     Inr (MatchOrdersOneToOneItem
       \<lparr>item_id = ''m1'', item_chainId = ''1'', exchangeAddress = exchange_address,
        sell = raw_sell_order, buy = buy_order,
        buyOrderHash = ''0xb1d0'', sellOrderHash = ''0x5e11''\<rparr>)"
    by (simp add: build_item_def read_one_to_one_match)
  moreover have "constraints raw_sell_order =
     [JSNumber 1, JSString ''1000000000000000000'', JSString ''1000000000000000000'',
      JSNumber 1650000000, JSNumber 1660000000, JSNumber 7]"
    by (simp add: raw_sell_order_def)
  ultimately show ?thesis using normalize_raw_sell_order by simp
qed

lemma flatten_match_orders_match:
  "flatten_order_items match_orders_match =
     ([\<lparr>collection = collection_address, tokens = [token_7]\<rparr>,
       \<lparr>collection = complication_address, tokens = []\<rparr>], 2)"
  by (simp add: flatten_order_items_def match_orders_match_def one_to_one_match_def match_items_def)

lemma build_match_orders_match:
  "\<exists>b. createBundleItem store_provider ''m3'' listing_doc offer_doc match_orders_match = Inr b"
proof -
  have l: "signedOrder listing_doc = raw_sell_order" and o: "signedOrder offer_doc = buy_order"
    by (simp_all add: listing_doc_def offer_doc_def)
  have c: "js_index (constraints buy_order) (Suc 0) = JSString ''1200000000000000000''"
    "js_index (constraints buy_order) 2 = JSString ''1200000000000000000''"
    by (simp_all add: js_index_def buy_order_def)
  have h: "orderHash store_provider x = Some (sig x)" for x
    by (simp add: store_provider_def)
  have m: "match_type match_orders_match = MatchOrdersMethod"
    by (simp add: match_orders_match_def)
  show ?thesis
    by (simp add: createBundleItem_def flatten_match_orders_match m getMatchOrdersBundle_def l o c
        normalize_def store_toString normalize_raw_sell_order normalize_buy_order h Let_def)
qed

theorem constructed_order_fields_witness:
  "match_type match_orders_match = MatchOrdersMethod \<and>
   (\<exists>i. createBundleItem store_provider ''m3'' listing_doc offer_doc match_orders_match =
           Inr (MatchOrdersItem i) \<and>
        constructed i =
          \<lparr>isSellOrder = False, signer = seller_address,
           constraints =
             [JSNumber 2, JSString ''1200000000000000000'', JSString ''1200000000000000000'',
              JSString ''1650000000'', JSString ''1660000000'', JSString ''9''],
           nfts = [\<lparr>collection = collection_address, tokens = [token_7]\<rparr>,
                   \<lparr>collection = complication_address, tokens = []\<rparr>],
           execParams = [complication_address, weth_address],
           extraParams = ''0x'', sig = ''0x5e11''\<rparr>)"
proof -
  have m: "match_type match_orders_match = MatchOrdersMethod"
    by (simp add: match_orders_match_def)
  from build_match_orders_match obtain b where
    b: "createBundleItem store_provider ''m3'' listing_doc offer_doc match_orders_match = Inr b" ..
  from constructed_order_fields [OF m b] obtain i startPrice endPrice where
    i: "b = MatchOrdersItem i"
    and s: "bn_toString store_provider (js_index (constraints (signedOrder offer_doc)) 1) = Some startPrice"
    and e: "bn_toString store_provider (js_index (constraints (signedOrder offer_doc)) 2) = Some endPrice"
    and c: "constructed i =
       \<lparr>isSellOrder = False,
        signer = signer (signedOrder listing_doc),
        constraints =
          [JSNumber (int (snd (flatten_order_items match_orders_match))), JSString startPrice, JSString endPrice,
           js_index (constraints (signedOrder offer_doc)) 3,
           js_index (constraints (signedOrder offer_doc)) 4,
           nonce offer_doc],
        nfts = fst (flatten_order_items match_orders_match),
        execParams = [complicationAddress listing_doc, currencyAddress listing_doc],
        extraParams = extraParams (signedOrder listing_doc),
        sig = sig (signedOrder listing_doc)\<rparr>"
    by blast
  have o: "signedOrder offer_doc = buy_order" by (simp add: offer_doc_def)
  have ix: "js_index (constraints buy_order) (Suc 0) = JSString ''1200000000000000000''"
    "js_index (constraints buy_order) 2 = JSString ''1200000000000000000''"
    "js_index (constraints buy_order) 3 = JSString ''1650000000''"
    "js_index (constraints buy_order) 4 = JSString ''1660000000''"
    by (simp_all add: js_index_def buy_order_def)
  from s have sp: "startPrice = ''1200000000000000000''"
    by (simp add: o ix store_toString)
  from e have ep: "endPrice = ''1200000000000000000''"
    by (simp add: o ix store_toString)
  from c sp ep have "constructed i =
          \<lparr>isSellOrder = False, signer = seller_address,
           constraints =
             [JSNumber 2, JSString ''1200000000000000000'', JSString ''1200000000000000000'',
              JSString ''1650000000'', JSString ''1660000000'', JSString ''9''],
           nfts = [\<lparr>collection = collection_address, tokens = [token_7]\<rparr>,
                   \<lparr>collection = complication_address, tokens = []\<rparr>],
           execParams = [complication_address, weth_address],
           extraParams = ''0x'', sig = ''0x5e11''\<rparr>"
    by (simp add: o ix flatten_match_orders_match)
       (simp add: listing_doc_def offer_doc_def raw_sell_order_def sell_order_def)
  with m b i show ?thesis by simp
qed

lemma first_listing: "filter is_listing orders = l # ls \<Longrightarrow> \<exists>ord. l = Some ord"
proof -
  assume "filter is_listing orders = l # ls"
  then have "is_listing l" by (metis filter_eq_ConsD)
  then show ?thesis by (cases l) (simp_all add: is_listing_def)
qed

lemma first_offer: "filter is_offer orders = f # fs \<Longrightarrow> \<exists>ord. f = Some ord"
proof -
  assume "filter is_offer orders = f # fs"
  then have "is_offer f" by (metis filter_eq_ConsD)
  then show ?thesis by (cases f) (simp_all add: is_offer_def)
qed

lemma getOrders_missing:
  assumes "getAll env (ids match) = Some orders"
    and "filter is_listing orders = [] \<or> filter is_offer orders = []"
  shows "getOrders env match = Inl OrderNotFound"
proof (cases "filter is_listing orders")
  case Nil
  with assms(1) show ?thesis by (simp add: getOrders_def)
next
  case (Cons l ls)
  with first_listing obtain lo where "l = Some lo" by blast
  with Cons assms show ?thesis by (simp add: getOrders_def)
qed

lemma getOrders_multiple:
  assumes "getAll env (ids match) = Some orders"
    and "filter is_listing orders \<noteq> []" and "filter is_offer orders \<noteq> []"
    and "length (filter is_listing orders) > 1 \<or> length (filter is_offer orders) > 1"
  shows "getOrders env match = Inl MultipleOrders"
proof -
  from assms(2) obtain l ls where ls: "filter is_listing orders = l # ls"
    by (cases "filter is_listing orders") simp_all
  from assms(3) obtain f fs where fs: "filter is_offer orders = f # fs"
    by (cases "filter is_offer orders") simp_all
  from first_listing[OF ls] obtain lo where l: "l = Some lo" by blast
  from first_offer[OF fs] obtain fo where f: "f = Some fo" by blast
  from assms(1,4) ls fs l f show ?thesis by (simp add: getOrders_def)
qed

text \<open>
  C8 as stated fails on a match whose read yields two listings and no offer: the build
  fails with \<^verbatim>\<open>'Order not found'\<close>, not with the error for multiple orders, and the handler
  logs the error without emitting an event or writing to the match document.
\<close>

theorem two_listings_no_offer_counterexample:
  "getAll store_provider (ids two_listings_match) = Some [Some listing_doc, Some listing_doc] \<and>
   length (filter is_listing [Some listing_doc, Some listing_doc]) = 2 \<and>
   getOrders store_provider two_listings_match = Inl OrderNotFound \<and>
   getOrders store_provider two_listings_match \<noteq> Inl MultipleOrders \<and>
   handleOrderMatchUpdate store_provider ''m1'' two_listings_match =
     \<lparr>emitted = [], logged = [OrderNotFound], written = []\<rparr>"
  by (simp add: getOrders_def handleOrderMatchUpdate_def build_item_def store_provider_def
      two_listings_match_def one_to_one_match_def orders_store_def is_listing_def is_offer_def
      listing_doc_def)

text \<open>
  C8, amended. When the batched read returns, a match for which it yields no listing or
  no offer fails with \<^verbatim>\<open>'Order not found'\<close>; a match for which it yields at least one of
  each and more than one of either fails with \<^verbatim>\<open>'Multiple orders are not yet supported'\<close>;
  and whatever error the build ends with, the handler logs that error, emits no event and
  writes nothing to the match document.
\<close>

theorem getOrders_failures_are_logged:
  assumes "getAll env (ids match) = Some orders"
  shows "(filter is_listing orders = [] \<or> filter is_offer orders = [] \<longrightarrow>
            getOrders env match = Inl OrderNotFound) \<and>
         (filter is_listing orders \<noteq> [] \<and> filter is_offer orders \<noteq> [] \<and>
          (length (filter is_listing orders) > 1 \<or> length (filter is_offer orders) > 1) \<longrightarrow>
            getOrders env match = Inl MultipleOrders) \<and>
         (\<forall>err. build_item env ident match = Inl err \<longrightarrow>
            handleOrderMatchUpdate env ident match = \<lparr>emitted = [], logged = [err], written = []\<rparr>)"
proof (intro conjI impI allI)
  assume "filter is_listing orders = [] \<or> filter is_offer orders = []"
  with assms show "getOrders env match = Inl OrderNotFound"
    by (rule getOrders_missing)
next
  assume "filter is_listing orders \<noteq> [] \<and> filter is_offer orders \<noteq> [] \<and>
          (length (filter is_listing orders) > 1 \<or> length (filter is_offer orders) > 1)"
  with assms show "getOrders env match = Inl MultipleOrders"
    by (simp add: getOrders_multiple)
next
  fix err assume "build_item env ident match = Inl err"
  then show "handleOrderMatchUpdate env ident match = \<lparr>emitted = [], logged = [err], written = []\<rparr>"
    by (simp add: handleOrderMatchUpdate_def)
qed

theorem getOrders_failures_are_logged_witness:
  "getAll store_provider (ids two_listings_match) = Some [Some listing_doc, Some listing_doc] \<and>
   filter is_offer [Some listing_doc, Some listing_doc] = [] \<and>
   getOrders store_provider two_listings_match = Inl OrderNotFound \<and>
   getAll store_provider (ids crowded_match) = Some [Some listing_doc, Some listing_doc, Some offer_doc] \<and>
   length (filter is_listing [Some listing_doc, Some listing_doc, Some offer_doc]) = 2 \<and>
   filter is_offer [Some listing_doc, Some listing_doc, Some offer_doc] = [Some offer_doc] \<and>
   getOrders store_provider crowded_match = Inl MultipleOrders \<and>
   build_item store_provider ''m1'' crowded_match = Inl MultipleOrders \<and>
   handleOrderMatchUpdate store_provider ''m1'' crowded_match =
     \<lparr>emitted = [], logged = [MultipleOrders], written = []\<rparr>"
proof -
  have r2: "getAll store_provider (ids two_listings_match) = Some [Some listing_doc, Some listing_doc]"
    by (simp add: store_provider_def two_listings_match_def orders_store_def)
  have r3: "getAll store_provider (ids crowded_match) =
      Some [Some listing_doc, Some listing_doc, Some offer_doc]"
    by (simp add: store_provider_def crowded_match_def orders_store_def)
  have f2: "filter is_offer [Some listing_doc, Some listing_doc] = []"
    by (simp add: is_offer_def listing_doc_def)
  have f3: "filter is_listing [Some listing_doc, Some listing_doc, Some offer_doc] =
              [Some listing_doc, Some listing_doc]"
    "filter is_offer [Some listing_doc, Some listing_doc, Some offer_doc] = [Some offer_doc]"
    by (simp_all add: is_listing_def is_offer_def listing_doc_def offer_doc_def)
  have g2: "getOrders store_provider two_listings_match = Inl OrderNotFound"
    using getOrders_failures_are_logged [OF r2, of "''m1''"] f2 by simp
  have g3: "getOrders store_provider crowded_match = Inl MultipleOrders"
    using getOrders_failures_are_logged [OF r3, of "''m1''"] f3 by simp
  have "state_status crowded_match = Active"
    by (simp add: crowded_match_def one_to_one_match_def)
  then have b3: "build_item store_provider ''m1'' crowded_match = Inl MultipleOrders"
    by (simp add: build_item_def g3)
  have h3: "handleOrderMatchUpdate store_provider ''m1'' crowded_match =
     \<lparr>emitted = [], logged = [MultipleOrders], written = []\<rparr>"
    using getOrders_failures_are_logged [OF r3, of "''m1''"] b3 by simp
  from r2 r3 f2 f3 g2 g3 b3 h3 show ?thesis by simp
qed

section \<open>Bundle packer: properties\<close>


lemma js_mod_less: "js_mod i k = Some index \<Longrightarrow> enat index < k"
  by (cases k) (auto simp: js_mod_def split: if_splits)

lemma store_at_bound:
  assumes "enat (length acc) \<le> k" and "enat index < k"
  shows "enat (length (store_at acc index b)) \<le> k"
proof (cases "index < length acc")
  case True
  with assms show ?thesis by (simp add: store_at_def)
next
  case False
  then have "enat (length acc) \<le> enat index" by simp
  with assms(2) have "enat (length acc) < k" by (meson le_less_trans)
  then have "enat (Suc (length acc)) \<le> k" by (simp add: Suc_ile_eq)
  with False show ?thesis by (simp add: store_at_def)
qed

lemma matchOrders_step_length:
  "enat (length acc) \<le> k \<Longrightarrow> enat (length (matchOrders_step k acc x i)) \<le> k"
  by (auto simp: matchOrders_step_def Let_def split: option.splits intro!: store_at_bound dest: js_mod_less)

lemma matchOrdersOneToOne_step_length:
  "enat (length acc) \<le> k \<Longrightarrow> enat (length (matchOrdersOneToOne_step k acc x i)) \<le> k"
  by (auto simp: matchOrdersOneToOne_step_def Let_def split: option.splits intro!: store_at_bound dest: js_mod_less)

lemma reduce_from_length:
  assumes "\<And>acc x i. enat (length acc) \<le> k \<Longrightarrow> enat (length (f acc x i)) \<le> k"
  shows "enat (length acc) \<le> k \<Longrightarrow> enat (length (reduce_from i f acc xs)) \<le> k"
  by (induction xs arbitrary: i acc) (simp_all add: assms)

lemma matchOrders_args_length:
  "enat (length (matchOrdersItemsToArgsTransformer items k)) \<le> k"
  unfolding matchOrdersItemsToArgsTransformer_def length_map
  by (rule reduce_from_length[OF matchOrders_step_length]) (simp_all add: zero_enat_def[symmetric])

lemma matchOrdersOneToOne_args_length:
  "enat (length (matchOrdersOneToOneItemsToArgsTransformer items k)) \<le> k"
  unfolding matchOrdersOneToOneItemsToArgsTransformer_def length_map
  by (rule reduce_from_length[OF matchOrdersOneToOne_step_length]) (simp_all add: zero_enat_def[symmetric])

lemma length_map_filter_le: "length (List.map_filter f xs) \<le> length xs"
  by (simp add: List.map_filter_def)

lemma transactionRequests_length:
  "enat (length (bundleItemsToArgs items k)) \<le> k \<Longrightarrow>
   enat (length (transactionRequests env pk bundleItemsToArgs items k)) \<le> k"
  unfolding transactionRequests_def
  by (meson enat_ord_simps(1) length_map_filter_le order_trans)

lemma ceil_div_le: "0 < m \<Longrightarrow> (n + m - 1) div m \<le> (n::nat)"
proof -
  assume m: "0 < m"
  have "n + m - 1 < (n + 1) * m" using m by (cases m) (auto simp: algebra_simps)
  then have "(n + m - 1) div m < n + 1" using m by (simp add: less_mult_imp_div_less)
  then show ?thesis by simp
qed

lemma infinity_twice: "(\<infinity>::enat) * 2 = \<infinity>"
  by (simp add: imult_is_infinity)

lemma updatedNumBundles_max:
  assumes "enat (length txs) \<le> k"
  shows "updatedNumBundles pk txs k = max (js_ceil_div (length txs) (MAX_GAS_LIMIT pk)) (k * 2)"
proof (cases "MAX_GAS_LIMIT pk = 0")
  case True
  then show ?thesis
    by (cases k) (simp_all add: updatedNumBundles_def estimatedNumBundles_def js_ceil_div_def max_def infinity_twice)
next
  case False
  then have "(length txs + MAX_GAS_LIMIT pk - 1) div MAX_GAS_LIMIT pk \<le> length txs"
    using ceil_div_le[of "MAX_GAS_LIMIT pk" "length txs"] by simp
  then have e: "js_ceil_div (length txs) (MAX_GAS_LIMIT pk) \<le> k"
    using assms False by (simp add: js_ceil_div_def) (meson enat_ord_simps(1) order_trans)
  have "k \<le> k * 2" by (cases k) (simp_all add: numeral_eq_enat)
  with e show ?thesis
    by (simp add: updatedNumBundles_def estimatedNumBundles_def max_def) (meson order_trans)
qed

lemma buildBundles_resplit:
  assumes "enat (length (tr items k)) \<le> k"
    and "transactionsTooBig pk (transactionRequests env pk tr items k)"
  shows "buildBundles env pk tr items k =
         buildBundles env pk tr items
           (max (js_ceil_div (length (transactionRequests env pk tr items k)) (MAX_GAS_LIMIT pk)) (k * 2))"
  using assms
  by (subst buildBundles.simps) (simp add: Let_def updatedNumBundles_max transactionRequests_length)

lemma buildBundles_fits:
  "\<not> oversize_at env pk tr items k \<Longrightarrow>
   buildBundles env pk tr items k =
     Some \<lparr>txRequests = transactionRequests env pk tr items k, invalidBundleItems = []\<rparr>"
  by (subst buildBundles.simps) (simp add: oversize_at_def Let_def)

lemma buildBundles_oversize:
  "oversize_at env pk tr items k \<Longrightarrow>
   buildBundles env pk tr items k = buildBundles env pk tr items (next_numBundles env pk tr items k)"
  by (subst buildBundles.simps) (simp add: oversize_at_def next_numBundles_def Let_def)

lemma buildBundles_after:
  "(\<forall>m<n. oversize_at env pk tr items ((next_numBundles env pk tr items ^^ m) k)) \<Longrightarrow>
   buildBundles env pk tr items k =
   buildBundles env pk tr items ((next_numBundles env pk tr items ^^ n) k)"
proof (induction n arbitrary: k)
  case 0
  show ?case by simp
next
  case (Suc n)
  from Suc.prems have o: "oversize_at env pk tr items k" by force
  have "\<forall>m<n. oversize_at env pk tr items
          ((next_numBundles env pk tr items ^^ m) (next_numBundles env pk tr items k))"
  proof (intro allI impI)
    fix m assume "m < n"
    then have "Suc m < Suc n" by simp
    with Suc.prems have "oversize_at env pk tr items ((next_numBundles env pk tr items ^^ Suc m) k)"
      by blast
    then show "oversize_at env pk tr items
          ((next_numBundles env pk tr items ^^ m) (next_numBundles env pk tr items k))"
      by (simp add: funpow_swap1)
  qed
  from Suc.IH[OF this] show ?case
    by (simp add: buildBundles_oversize[OF o] funpow_swap1)
qed

lemma returns_after_fits:
  "\<not> oversize_at env pk tr items k \<Longrightarrow>
   returns_after env pk tr items k \<lparr>txRequests = transactionRequests env pk tr items k, invalidBundleItems = []\<rparr>"
  unfolding returns_after_def by (intro exI[of _ 0]) simp

lemma returns_after_step:
  assumes o: "oversize_at env pk tr items k"
    and r: "returns_after env pk tr items (next_numBundles env pk tr items k) r"
  shows "returns_after env pk tr items k r"
proof -
  from r obtain n where
    n: "\<forall>m<n. oversize_at env pk tr items
           ((next_numBundles env pk tr items ^^ m) (next_numBundles env pk tr items k))"
       "\<not> oversize_at env pk tr items
           ((next_numBundles env pk tr items ^^ n) (next_numBundles env pk tr items k))"
       "r = \<lparr>txRequests = transactionRequests env pk tr items
                ((next_numBundles env pk tr items ^^ n) (next_numBundles env pk tr items k)),
             invalidBundleItems = []\<rparr>"
    unfolding returns_after_def by blast
  have "\<forall>m<Suc n. oversize_at env pk tr items ((next_numBundles env pk tr items ^^ m) k)"
  proof (intro allI impI)
    fix m assume m: "m < Suc n"
    show "oversize_at env pk tr items ((next_numBundles env pk tr items ^^ m) k)"
    proof (cases m)
      case 0
      with o show ?thesis by simp
    next
      case (Suc m')
      with m n(1) show ?thesis by (simp add: funpow_swap1)
    qed
  qed
  with n(2,3) show ?thesis
    unfolding returns_after_def by (intro exI[of _ "Suc n"]) (simp add: funpow_swap1)
qed

lemma buildBundles_Some_run:
  assumes "buildBundles env pk tr items k = Some r"
  shows "returns_after env pk tr items k r"
proof (rule buildBundles.raw_induct[where P = returns_after, OF _ assms])
  show "returns_after env' pk' tr' items' k' r'"
    if IH: "\<And>env pk tr items k r. rec env pk tr items k = Some r \<Longrightarrow> returns_after env pk tr items k r"
    and body: "(let txs = transactionRequests env' pk' tr' items' k'
      in if transactionsTooBig pk' txs
         then rec env' pk' tr' items' (updatedNumBundles pk' txs k')
         else Some \<lparr>txRequests = txs, invalidBundleItems = []\<rparr>) = Some r'"
    for rec env' pk' tr' items' k' r'
  proof (cases "oversize_at env' pk' tr' items' k'")
    case False
    with body have "r' = \<lparr>txRequests = transactionRequests env' pk' tr' items' k', invalidBundleItems = []\<rparr>"
      by (simp add: oversize_at_def Let_def)
    with False show ?thesis by (simp add: returns_after_fits)
  next
    case True
    with body have "rec env' pk' tr' items' (next_numBundles env' pk' tr' items' k') = Some r'"
      by (simp add: oversize_at_def next_numBundles_def Let_def)
    from returns_after_step[OF True IH[OF this]] show ?thesis .
  qed
qed

lemma buildBundles_Some_iff:
  "buildBundles env pk tr items k = Some r \<longleftrightarrow>
   (\<exists>n. (\<forall>m<n. oversize_at env pk tr items ((next_numBundles env pk tr items ^^ m) k)) \<and>
        \<not> oversize_at env pk tr items ((next_numBundles env pk tr items ^^ n) k) \<and>
        r = \<lparr>txRequests = transactionRequests env pk tr items ((next_numBundles env pk tr items ^^ n) k),
             invalidBundleItems = []\<rparr>)"
proof
  assume "buildBundles env pk tr items k = Some r"
  then show "\<exists>n. (\<forall>m<n. oversize_at env pk tr items ((next_numBundles env pk tr items ^^ m) k)) \<and>
        \<not> oversize_at env pk tr items ((next_numBundles env pk tr items ^^ n) k) \<and>
        r = \<lparr>txRequests = transactionRequests env pk tr items ((next_numBundles env pk tr items ^^ n) k),
             invalidBundleItems = []\<rparr>"
    using buildBundles_Some_run[of env pk tr items k r] by (simp add: returns_after_def)
next
  assume "\<exists>n. (\<forall>m<n. oversize_at env pk tr items ((next_numBundles env pk tr items ^^ m) k)) \<and>
        \<not> oversize_at env pk tr items ((next_numBundles env pk tr items ^^ n) k) \<and>
        r = \<lparr>txRequests = transactionRequests env pk tr items ((next_numBundles env pk tr items ^^ n) k),
             invalidBundleItems = []\<rparr>"
  then obtain n where n: "\<forall>m<n. oversize_at env pk tr items ((next_numBundles env pk tr items ^^ m) k)"
    "\<not> oversize_at env pk tr items ((next_numBundles env pk tr items ^^ n) k)"
    "r = \<lparr>txRequests = transactionRequests env pk tr items ((next_numBundles env pk tr items ^^ n) k),
             invalidBundleItems = []\<rparr>"
    by blast
  from buildBundles_after[OF n(1)] buildBundles_fits[OF n(2)] n(3)
  show "buildBundles env pk tr items k = Some r" by simp
qed

lemma not_oversize_gasLimit:
  "\<not> oversize_at env pk tr items k \<Longrightarrow>
   \<forall>t\<in>set (transactionRequests env pk tr items k). gasLimit t \<le> MAX_GAS_LIMIT pk"
  by (auto simp: oversize_at_def transactionsTooBig_def list_ex_iff not_less)

lemma buildBundles_never:
  assumes "\<And>k. k \<noteq> 0 \<Longrightarrow> oversize_at env pk tr items k"
    and "k \<noteq> 0"
  shows "buildBundles env pk tr items k = None"
proof (rule ccontr)
  assume "buildBundles env pk tr items k \<noteq> None"
  then obtain r where "buildBundles env pk tr items k = Some r" by blast
  then obtain n where n: "\<not> oversize_at env pk tr items ((next_numBundles env pk tr items ^^ n) k)"
    using buildBundles_Some_run[of env pk tr items k r] unfolding returns_after_def by blast
  have nz: "(next_numBundles env pk tr items ^^ m) k \<noteq> 0" for m
  proof (induction m)
    case 0 with assms(2) show ?case by simp
  next
    case (Suc m)
    have "x \<noteq> 0 \<Longrightarrow> next_numBundles env pk tr items x \<noteq> 0" for x
      by (auto simp: next_numBundles_def updatedNumBundles_def split: if_splits)
    with Suc show ?case by simp
  qed
  from assms(1)[OF nz] n show False by blast
qed

text \<open>
  The index that a step of the two transformers writes is at most the length of the
  accumulator: after \<open>i\<close> items the accumulator has \<open>min i numBundles\<close> entries.
\<close>

lemma reduce_index_bound:
  assumes "length acc = (case k of enat n \<Rightarrow> min i n | \<infinity> \<Rightarrow> i)"
    and "js_mod i k = Some index"
  shows "index \<le> length acc"
    and "length (store_at acc index b) = (case k of enat n \<Rightarrow> min (Suc i) n | \<infinity> \<Rightarrow> Suc i)"
proof -
  show "index \<le> length acc"
  proof (cases k)
    case (enat n)
    with assms(2) have n: "n \<noteq> 0" and index: "index = i mod n"
      by (auto simp: js_mod_def split: if_splits)
    have "i mod n \<le> i" by simp
    moreover have "i mod n \<le> n" using n by (simp add: less_imp_le)
    ultimately show ?thesis using assms(1) enat index by simp
  next
    case infinity
    with assms show ?thesis by (simp add: js_mod_def)
  qed
  show "length (store_at acc index b) = (case k of enat n \<Rightarrow> min (Suc i) n | \<infinity> \<Rightarrow> Suc i)"
  proof (cases k)
    case (enat n)
    with assms(2) have n: "n \<noteq> 0" and index: "index = i mod n"
      by (auto simp: js_mod_def split: if_splits)
    show ?thesis
    proof (cases "i < n")
      case True
      with assms(1) enat index show ?thesis by (simp add: store_at_def)
    next
      case False
      then have "length acc = n" using assms(1) enat by simp
      moreover have "i mod n < n" using n by simp
      ultimately show ?thesis using enat index False by (simp add: store_at_def)
    qed
  next
    case infinity
    with assms show ?thesis by (simp add: js_mod_def store_at_def)
  qed
qed

subsection \<open>The scenarios of the packer\<close>

lemma js_mod_one: "js_mod i 1 = Some 0"
  by (simp add: js_mod_def one_enat_def)

lemma js_mod_two: "js_mod 0 2 = Some 0" "js_mod (Suc 0) 2 = Some 1"
  by (simp_all add: js_mod_def numeral_eq_enat)

lemma js_mod_first: "k \<noteq> 0 \<Longrightarrow> js_mod 0 k = Some 0"
  by (cases k) (simp_all add: js_mod_def zero_enat_def)

lemma one_to_one_args_at_1:
  "matchOrdersOneToOneItemsToArgsTransformer [a, b] 1 = [([sell a, sell b], [buy a, buy b])]"
  by (simp add: matchOrdersOneToOneItemsToArgsTransformer_def matchOrdersOneToOne_step_def
      js_mod_one bundle_at_def store_at_def)

lemma one_to_one_args_at_2:
  "matchOrdersOneToOneItemsToArgsTransformer [a, b] 2 = [([sell a], [buy a]), ([sell b], [buy b])]"
  by (simp add: matchOrdersOneToOneItemsToArgsTransformer_def matchOrdersOneToOne_step_def
      js_mod_two bundle_at_def store_at_def)

lemma one_to_one_args_single:
  "k \<noteq> 0 \<Longrightarrow> matchOrdersOneToOneItemsToArgsTransformer [a] k = [([sell a], [buy a])]"
  by (simp add: matchOrdersOneToOneItemsToArgsTransformer_def matchOrdersOneToOne_step_def
      js_mod_first bundle_at_def store_at_def)

lemma match_orders_args_at_1:
  "matchOrdersItemsToArgsTransformer [a, b] 1 =
     [([sell a, sell b], [buy a, buy b], [nfts (constructed a), nfts (constructed b)])]"
  by (simp add: matchOrdersItemsToArgsTransformer_def matchOrders_step_def
      js_mod_one bundle_at_def store_at_def)

lemma match_orders_args_at_2:
  "matchOrdersItemsToArgsTransformer [a, b] 2 =
     [([sell a], [buy a], [nfts (constructed a)]), ([sell b], [buy b], [nfts (constructed b)])]"
  by (simp add: matchOrdersItemsToArgsTransformer_def matchOrders_step_def
      js_mod_two bundle_at_def store_at_def)

lemma try_request_gas_per_match:
  "try_request happy_chain (gas_per_match g) args =
     Some \<lparr>tx_to = exchange_address, gasLimit = g * length (fst args) * 6 div 5, data = args,
           tx_chainId = 1, tx_type = 2\<rparr>"
  by (simp add: try_request_def gas_per_match_def happy_chain_def)

lemma max_gas_per_match: "MAX_GAS_LIMIT (gas_per_match g) = 30000000"
  by (simp add: gas_per_match_def)

lemma one_to_one_requests_at_1:
  "transactionRequests happy_chain (gas_per_match 20000000)
      matchOrdersOneToOneItemsToArgsTransformer [a, b] 1 =
     [\<lparr>tx_to = exchange_address, gasLimit = 48000000,
       data = ([sell a, sell b], [buy a, buy b]), tx_chainId = 1, tx_type = 2\<rparr>]"
  by (simp add: transactionRequests_def one_to_one_args_at_1 List.map_filter_def
      try_request_gas_per_match)

lemma one_to_one_requests_at_2:
  "transactionRequests happy_chain (gas_per_match 20000000)
      matchOrdersOneToOneItemsToArgsTransformer [a, b] 2 =
     [\<lparr>tx_to = exchange_address, gasLimit = 24000000,
       data = ([sell a], [buy a]), tx_chainId = 1, tx_type = 2\<rparr>,
      \<lparr>tx_to = exchange_address, gasLimit = 24000000,
       data = ([sell b], [buy b]), tx_chainId = 1, tx_type = 2\<rparr>]"
  by (simp add: transactionRequests_def one_to_one_args_at_2 List.map_filter_def
      try_request_gas_per_match)

lemma match_orders_requests_at_1:
  "transactionRequests happy_chain (gas_per_match 20000000)
      matchOrdersItemsToArgsTransformer [a, b] 1 =
     [\<lparr>tx_to = exchange_address, gasLimit = 48000000,
       data = ([sell a, sell b], [buy a, buy b], [nfts (constructed a), nfts (constructed b)]),
       tx_chainId = 1, tx_type = 2\<rparr>]"
  by (simp add: transactionRequests_def match_orders_args_at_1 List.map_filter_def
      try_request_gas_per_match)

lemma second_bundle_count:
  "max (js_ceil_div (Suc 0) 30000000) (1 * 2) = 2"
  "max (js_ceil_div (Suc 0) 30000000) 2 = 2"
  by (simp_all add: js_ceil_div_def one_enat_def numeral_eq_enat max_def)

lemma next_from_one:
  "next_numBundles happy_chain (gas_per_match 20000000)
      matchOrdersOneToOneItemsToArgsTransformer [a, b] 1 = 2"
proof -
  let ?txs = "transactionRequests happy_chain (gas_per_match 20000000)
      matchOrdersOneToOneItemsToArgsTransformer [a, b] 1"
  have len: "length ?txs = Suc 0" by (simp add: one_to_one_requests_at_1)
  then have "enat (length ?txs) \<le> 1" by (simp add: one_enat_def)
  from updatedNumBundles_max [OF this, of "gas_per_match 20000000"]
  have "updatedNumBundles (gas_per_match 20000000) ?txs 1 =
          max (js_ceil_div (Suc 0) 30000000) (1 * 2)"
    by (simp only: len max_gas_per_match)
  then show ?thesis by (simp only: next_numBundles_def second_bundle_count)
qed

lemma oversize_single:
  assumes "k \<noteq> 0"
  shows "oversize_at happy_chain (gas_per_match 50000000)
           matchOrdersOneToOneItemsToArgsTransformer [a] k"
  by (simp add: oversize_at_def transactionsTooBig_def transactionRequests_def
      one_to_one_args_single[OF assms] List.map_filter_def try_request_gas_per_match
      max_gas_per_match)

text \<open>
  C2 as stated fails: with a single item whose request is oversize whatever the bundle
  count, \<^verbatim>\<open>buildBundles\<close> started at one bundle never returns. There is no bound on
  \<^verbatim>\<open>numBundles\<close>, and nothing is reported as too large.
\<close>

theorem oversize_item_never_returns_counterexample:
  "buildBundles happy_chain (gas_per_match 50000000)
     matchOrdersOneToOneItemsToArgsTransformer [one_to_one_item] 1 = None"
  by (rule buildBundles_never) (simp_all add: oversize_single)

text \<open>
  C2, amended. A call of \<^verbatim>\<open>buildBundles\<close> returns exactly when the re-splitting, after
  some number of rounds in each of which a request is oversize, reaches a bundle count at
  which no request is oversize; it returns the requests built there. Whatever it returns
  has every \<^verbatim>\<open>gasLimit\<close> at most \<^verbatim>\<open>MAX_GAS_LIMIT\<close> and an empty list of invalid items. When
  a request is oversize at every bundle count other than zero, a call with such a count
  never returns.
\<close>

theorem buildBundles_returns_iff:
  "(buildBundles env pk tr items k = Some r \<longleftrightarrow>
      (\<exists>n. (\<forall>m<n. oversize_at env pk tr items ((next_numBundles env pk tr items ^^ m) k)) \<and>
           \<not> oversize_at env pk tr items ((next_numBundles env pk tr items ^^ n) k) \<and>
           r = \<lparr>txRequests = transactionRequests env pk tr items ((next_numBundles env pk tr items ^^ n) k),
                invalidBundleItems = []\<rparr>)) \<and>
   (buildBundles env pk tr items k = Some r \<longrightarrow>
      (\<forall>t\<in>set (txRequests r). gasLimit t \<le> MAX_GAS_LIMIT pk) \<and> invalidBundleItems r = []) \<and>
   ((\<forall>k'. k' \<noteq> 0 \<longrightarrow> oversize_at env pk tr items k') \<and> k \<noteq> 0 \<longrightarrow>
      buildBundles env pk tr items k = None)"
proof (intro conjI impI)
  show "buildBundles env pk tr items k = Some r \<longleftrightarrow>
      (\<exists>n. (\<forall>m<n. oversize_at env pk tr items ((next_numBundles env pk tr items ^^ m) k)) \<and>
           \<not> oversize_at env pk tr items ((next_numBundles env pk tr items ^^ n) k) \<and>
           r = \<lparr>txRequests = transactionRequests env pk tr items ((next_numBundles env pk tr items ^^ n) k),
                invalidBundleItems = []\<rparr>)"
    by (rule buildBundles_Some_iff)
next
  assume "buildBundles env pk tr items k = Some r"
  then have "returns_after env pk tr items k r" by (rule buildBundles_Some_run)
  then obtain n where
    "\<not> oversize_at env pk tr items ((next_numBundles env pk tr items ^^ n) k)"
    "r = \<lparr>txRequests = transactionRequests env pk tr items ((next_numBundles env pk tr items ^^ n) k),
          invalidBundleItems = []\<rparr>"
    unfolding returns_after_def by blast
  then show "\<forall>t\<in>set (txRequests r). gasLimit t \<le> MAX_GAS_LIMIT pk"
    and "invalidBundleItems r = []"
    using not_oversize_gasLimit by fastforce+
next
  assume "(\<forall>k'. k' \<noteq> 0 \<longrightarrow> oversize_at env pk tr items k') \<and> k \<noteq> 0"
  then show "buildBundles env pk tr items k = None"
    by (intro buildBundles_never) simp_all
qed

theorem buildBundles_returns_iff_witness:
  "oversize_at happy_chain (gas_per_match 20000000)
      matchOrdersOneToOneItemsToArgsTransformer [one_to_one_item, second_item] 1 \<and>
   \<not> oversize_at happy_chain (gas_per_match 20000000)
      matchOrdersOneToOneItemsToArgsTransformer [one_to_one_item, second_item] 2 \<and>
   buildBundles happy_chain (gas_per_match 20000000)
      matchOrdersOneToOneItemsToArgsTransformer [one_to_one_item, second_item] 1 =
     Some \<lparr>txRequests =
             [\<lparr>tx_to = exchange_address, gasLimit = 24000000,
               data = ([sell one_to_one_item], [buy one_to_one_item]), tx_chainId = 1, tx_type = 2\<rparr>,
              \<lparr>tx_to = exchange_address, gasLimit = 24000000,
               data = ([sell second_item], [buy second_item]), tx_chainId = 1, tx_type = 2\<rparr>],
           invalidBundleItems = []\<rparr> \<and>
   (24000000::nat) \<le> MAX_GAS_LIMIT (gas_per_match 20000000 :: (MatchOrdersOneToOneArgs, MatchOrdersOneToOneArgs) packer) \<and>
   buildBundles happy_chain (gas_per_match 50000000)
     matchOrdersOneToOneItemsToArgsTransformer [one_to_one_item] 2 = None"
proof -
  let ?pk = "gas_per_match 20000000 :: (MatchOrdersOneToOneArgs, MatchOrdersOneToOneArgs) packer"
  let ?tr = matchOrdersOneToOneItemsToArgsTransformer
  let ?items = "[one_to_one_item, second_item]"
  let ?r = "\<lparr>txRequests = transactionRequests happy_chain ?pk ?tr ?items 2,
             invalidBundleItems = []\<rparr>"
  have o1: "oversize_at happy_chain ?pk ?tr ?items 1"
    by (simp add: oversize_at_def transactionsTooBig_def one_to_one_requests_at_1 max_gas_per_match)
  have o2: "\<not> oversize_at happy_chain ?pk ?tr ?items 2"
    by (simp add: oversize_at_def transactionsTooBig_def one_to_one_requests_at_2 max_gas_per_match)
  have "\<exists>n. (\<forall>m<n. oversize_at happy_chain ?pk ?tr ?items ((next_numBundles happy_chain ?pk ?tr ?items ^^ m) 1)) \<and>
           \<not> oversize_at happy_chain ?pk ?tr ?items ((next_numBundles happy_chain ?pk ?tr ?items ^^ n) 1) \<and>
           ?r = \<lparr>txRequests = transactionRequests happy_chain ?pk ?tr ?items
                    ((next_numBundles happy_chain ?pk ?tr ?items ^^ n) 1),
                 invalidBundleItems = []\<rparr>"
    using o1 o2 by (intro exI[of _ "Suc 0"]) (simp add: next_from_one)
  with buildBundles_returns_iff [of happy_chain ?pk ?tr ?items 1 ?r]
  have b: "buildBundles happy_chain ?pk ?tr ?items 1 = Some ?r" by blast
  have all: "\<forall>k'. k' \<noteq> 0 \<longrightarrow> oversize_at happy_chain (gas_per_match 50000000) ?tr [one_to_one_item] k'"
    by (simp add: oversize_single)
  have "(2::enat) \<noteq> 0" by simp
  with all buildBundles_returns_iff [of happy_chain "gas_per_match 50000000" ?tr "[one_to_one_item]" 2]
  have n: "buildBundles happy_chain (gas_per_match 50000000) ?tr [one_to_one_item] 2 = None"
    by blast
  from o1 o2 b n show ?thesis
    by (simp add: one_to_one_requests_at_2 max_gas_per_match)
qed

lemma resplit_step:
  assumes len: "\<And>items k. enat (length (tr items k)) \<le> k"
  shows "updatedNumBundles pk (transactionRequests env pk tr items k) k =
           max (js_ceil_div (length (transactionRequests env pk tr items k)) (MAX_GAS_LIMIT pk)) (k * 2)"
    and "transactionsTooBig pk (transactionRequests env pk tr items k) \<Longrightarrow>
         buildBundles env pk tr items k =
         buildBundles env pk tr items
           (max (js_ceil_div (length (transactionRequests env pk tr items k)) (MAX_GAS_LIMIT pk)) (k * 2))"
    and "transactionsTooBig pk (transactionRequests env pk tr items k) \<Longrightarrow>
         \<not> transactionsTooBig pk (transactionRequests env pk tr items
           (max (js_ceil_div (length (transactionRequests env pk tr items k)) (MAX_GAS_LIMIT pk)) (k * 2))) \<Longrightarrow>
         buildBundles env pk tr items k =
         Some \<lparr>txRequests = transactionRequests env pk tr items
                  (max (js_ceil_div (length (transactionRequests env pk tr items k)) (MAX_GAS_LIMIT pk)) (k * 2)),
               invalidBundleItems = []\<rparr>"
proof -
  let ?newK = "max (js_ceil_div (length (transactionRequests env pk tr items k)) (MAX_GAS_LIMIT pk)) (k * 2)"
  show u: "updatedNumBundles pk (transactionRequests env pk tr items k) k = ?newK"
    by (rule updatedNumBundles_max) (rule transactionRequests_length, rule len)
  show r: "buildBundles env pk tr items k = buildBundles env pk tr items ?newK"
    if "transactionsTooBig pk (transactionRequests env pk tr items k)"
    using that by (rule buildBundles_resplit [where tr = tr, OF len])
  show "buildBundles env pk tr items k =
         Some \<lparr>txRequests = transactionRequests env pk tr items ?newK, invalidBundleItems = []\<rparr>"
    if "transactionsTooBig pk (transactionRequests env pk tr items k)"
      and "\<not> transactionsTooBig pk (transactionRequests env pk tr items ?newK)"
    using r [OF that(1)] buildBundles_fits [of env pk tr items ?newK] that(2)
    by (simp add: oversize_at_def)
qed

text \<open>
  C3. For both bundle types, every item list and every bundle count: the bundle count
  that \<^verbatim>\<open>buildBundles\<close> computes for its recursive call, \<^verbatim>\<open>updatedNumBundles\<close>, is
  \<open>max estimatedK (numBundles * 2)\<close>, where \<open>estimatedK\<close> is the number of surviving requests
  divided by \<^verbatim>\<open>MAX_GAS_LIMIT\<close>, rounded up. Whenever a surviving request of the current round
  has a \<^verbatim>\<open>gasLimit\<close> above \<^verbatim>\<open>MAX_GAS_LIMIT\<close>, \<^verbatim>\<open>buildBundles\<close> is the call of itself on the same
  items with that count; and when no request built at that count is oversize, what it
  returns is the requests built at that count.
\<close>

theorem resplit_bundle_count:
  "(updatedNumBundles pk (transactionRequests env pk matchOrdersItemsToArgsTransformer items k) k =
      max (js_ceil_div (length (transactionRequests env pk matchOrdersItemsToArgsTransformer items k))
              (MAX_GAS_LIMIT pk))
          (k * 2)) \<and>
   (transactionsTooBig pk (transactionRequests env pk matchOrdersItemsToArgsTransformer items k) \<longrightarrow>
      buildBundles env pk matchOrdersItemsToArgsTransformer items k =
      buildBundles env pk matchOrdersItemsToArgsTransformer items
        (max (js_ceil_div (length (transactionRequests env pk matchOrdersItemsToArgsTransformer items k))
                (MAX_GAS_LIMIT pk))
             (k * 2))) \<and>
   (transactionsTooBig pk (transactionRequests env pk matchOrdersItemsToArgsTransformer items k) \<and>
    \<not> transactionsTooBig pk (transactionRequests env pk matchOrdersItemsToArgsTransformer items
        (max (js_ceil_div (length (transactionRequests env pk matchOrdersItemsToArgsTransformer items k))
                (MAX_GAS_LIMIT pk))
             (k * 2))) \<longrightarrow>
      buildBundles env pk matchOrdersItemsToArgsTransformer items k =
      Some \<lparr>txRequests = transactionRequests env pk matchOrdersItemsToArgsTransformer items
               (max (js_ceil_div (length (transactionRequests env pk matchOrdersItemsToArgsTransformer items k))
                       (MAX_GAS_LIMIT pk))
                    (k * 2)),
            invalidBundleItems = []\<rparr>) \<and>
   (updatedNumBundles pk1 (transactionRequests env pk1 matchOrdersOneToOneItemsToArgsTransformer items1 k) k =
      max (js_ceil_div (length (transactionRequests env pk1 matchOrdersOneToOneItemsToArgsTransformer items1 k))
              (MAX_GAS_LIMIT pk1))
          (k * 2)) \<and>
   (transactionsTooBig pk1 (transactionRequests env pk1 matchOrdersOneToOneItemsToArgsTransformer items1 k) \<longrightarrow>
      buildBundles env pk1 matchOrdersOneToOneItemsToArgsTransformer items1 k =
      buildBundles env pk1 matchOrdersOneToOneItemsToArgsTransformer items1
        (max (js_ceil_div (length (transactionRequests env pk1 matchOrdersOneToOneItemsToArgsTransformer items1 k))
                (MAX_GAS_LIMIT pk1))
             (k * 2))) \<and>
   (transactionsTooBig pk1 (transactionRequests env pk1 matchOrdersOneToOneItemsToArgsTransformer items1 k) \<and>
    \<not> transactionsTooBig pk1 (transactionRequests env pk1 matchOrdersOneToOneItemsToArgsTransformer items1
        (max (js_ceil_div (length (transactionRequests env pk1 matchOrdersOneToOneItemsToArgsTransformer items1 k))
                (MAX_GAS_LIMIT pk1))
             (k * 2))) \<longrightarrow>
      buildBundles env pk1 matchOrdersOneToOneItemsToArgsTransformer items1 k =
      Some \<lparr>txRequests = transactionRequests env pk1 matchOrdersOneToOneItemsToArgsTransformer items1
               (max (js_ceil_div (length (transactionRequests env pk1 matchOrdersOneToOneItemsToArgsTransformer items1 k))
                       (MAX_GAS_LIMIT pk1))
                    (k * 2)),
            invalidBundleItems = []\<rparr>)"
  using resplit_step [where tr = matchOrdersItemsToArgsTransformer, OF matchOrders_args_length,
          of pk env items k]
        resplit_step [where tr = matchOrdersOneToOneItemsToArgsTransformer,
          OF matchOrdersOneToOne_args_length, of pk1 env items1 k]
  by blast

lemma match_orders_requests_at_2:
  "transactionRequests happy_chain (gas_per_match 20000000)
      matchOrdersItemsToArgsTransformer [a, b] 2 =
     [\<lparr>tx_to = exchange_address, gasLimit = 24000000,
       data = ([sell a], [buy a], [nfts (constructed a)]), tx_chainId = 1, tx_type = 2\<rparr>,
      \<lparr>tx_to = exchange_address, gasLimit = 24000000,
       data = ([sell b], [buy b], [nfts (constructed b)]), tx_chainId = 1, tx_type = 2\<rparr>]"
  by (simp add: transactionRequests_def match_orders_args_at_2 List.map_filter_def
      try_request_gas_per_match)

theorem resplit_bundle_count_witness:
  "transactionsTooBig (gas_per_match 20000000)
     (transactionRequests happy_chain (gas_per_match 20000000)
        matchOrdersItemsToArgsTransformer [match_orders_item, refused_item] 1) \<and>
   updatedNumBundles (gas_per_match 20000000)
     (transactionRequests happy_chain (gas_per_match 20000000)
        matchOrdersItemsToArgsTransformer [match_orders_item, refused_item] 1) 1 = 2 \<and>
   buildBundles happy_chain (gas_per_match 20000000)
        matchOrdersItemsToArgsTransformer [match_orders_item, refused_item] 1 =
     Some \<lparr>txRequests =
             [\<lparr>tx_to = exchange_address, gasLimit = 24000000,
               data = ([sell match_orders_item], [buy match_orders_item],
                       [nfts (constructed match_orders_item)]),
               tx_chainId = 1, tx_type = 2\<rparr>,
              \<lparr>tx_to = exchange_address, gasLimit = 24000000,
               data = ([sell refused_item], [buy refused_item], [nfts (constructed refused_item)]),
               tx_chainId = 1, tx_type = 2\<rparr>],
           invalidBundleItems = []\<rparr> \<and>
   transactionsTooBig (gas_per_match 20000000)
     (transactionRequests happy_chain (gas_per_match 20000000)
        matchOrdersOneToOneItemsToArgsTransformer [one_to_one_item, second_item] 1) \<and>
   updatedNumBundles (gas_per_match 20000000)
     (transactionRequests happy_chain (gas_per_match 20000000)
        matchOrdersOneToOneItemsToArgsTransformer [one_to_one_item, second_item] 1) 1 = 2 \<and>
   buildBundles happy_chain (gas_per_match 20000000)
        matchOrdersOneToOneItemsToArgsTransformer [one_to_one_item, second_item] 1 =
     Some \<lparr>txRequests =
             [\<lparr>tx_to = exchange_address, gasLimit = 24000000,
               data = ([sell one_to_one_item], [buy one_to_one_item]), tx_chainId = 1, tx_type = 2\<rparr>,
              \<lparr>tx_to = exchange_address, gasLimit = 24000000,
               data = ([sell second_item], [buy second_item]), tx_chainId = 1, tx_type = 2\<rparr>],
           invalidBundleItems = []\<rparr>"
proof -
  let ?pk = "gas_per_match 20000000 :: (MatchOrdersArgs, MatchOrdersArgs) packer"
  let ?pk1 = "gas_per_match 20000000 :: (MatchOrdersOneToOneArgs, MatchOrdersOneToOneArgs) packer"
  note th = resplit_bundle_count [of ?pk happy_chain "[match_orders_item, refused_item]" 1
      ?pk1 "[one_to_one_item, second_item]"]
  have t: "transactionsTooBig ?pk (transactionRequests happy_chain ?pk
        matchOrdersItemsToArgsTransformer [match_orders_item, refused_item] 1)"
    by (simp add: transactionsTooBig_def match_orders_requests_at_1 max_gas_per_match)
  have t1: "transactionsTooBig ?pk1 (transactionRequests happy_chain ?pk1
        matchOrdersOneToOneItemsToArgsTransformer [one_to_one_item, second_item] 1)"
    by (simp add: transactionsTooBig_def one_to_one_requests_at_1 max_gas_per_match)
  have n: "\<not> transactionsTooBig ?pk (transactionRequests happy_chain ?pk
        matchOrdersItemsToArgsTransformer [match_orders_item, refused_item] 2)"
    by (simp add: transactionsTooBig_def match_orders_requests_at_2 max_gas_per_match)
  have n1: "\<not> transactionsTooBig ?pk1 (transactionRequests happy_chain ?pk1
        matchOrdersOneToOneItemsToArgsTransformer [one_to_one_item, second_item] 2)"
    by (simp add: transactionsTooBig_def one_to_one_requests_at_2 max_gas_per_match)
  have k: "max (js_ceil_div (length (transactionRequests happy_chain ?pk
        matchOrdersItemsToArgsTransformer [match_orders_item, refused_item] 1)) (MAX_GAS_LIMIT ?pk)) (1 * 2) = 2"
    by (simp only: match_orders_requests_at_1 max_gas_per_match list.size second_bundle_count)
       (simp add: second_bundle_count)
  have k1: "max (js_ceil_div (length (transactionRequests happy_chain ?pk1
        matchOrdersOneToOneItemsToArgsTransformer [one_to_one_item, second_item] 1)) (MAX_GAS_LIMIT ?pk1)) (1 * 2) = 2"
    by (simp only: one_to_one_requests_at_1 max_gas_per_match list.size second_bundle_count)
       (simp add: second_bundle_count)
  from th t n have 1: "updatedNumBundles ?pk (transactionRequests happy_chain ?pk
        matchOrdersItemsToArgsTransformer [match_orders_item, refused_item] 1) 1 = 2"
    and 2: "buildBundles happy_chain ?pk matchOrdersItemsToArgsTransformer
        [match_orders_item, refused_item] 1 =
      Some \<lparr>txRequests = transactionRequests happy_chain ?pk matchOrdersItemsToArgsTransformer
               [match_orders_item, refused_item] 2, invalidBundleItems = []\<rparr>"
    unfolding k by blast+
  from th t1 n1 have 3: "updatedNumBundles ?pk1 (transactionRequests happy_chain ?pk1
        matchOrdersOneToOneItemsToArgsTransformer [one_to_one_item, second_item] 1) 1 = 2"
    and 4: "buildBundles happy_chain ?pk1 matchOrdersOneToOneItemsToArgsTransformer
        [one_to_one_item, second_item] 1 =
      Some \<lparr>txRequests = transactionRequests happy_chain ?pk1 matchOrdersOneToOneItemsToArgsTransformer
               [one_to_one_item, second_item] 2, invalidBundleItems = []\<rparr>"
    unfolding k1 by blast+
  from t t1 1 2 3 4 show ?thesis
    by (simp only: match_orders_requests_at_2 one_to_one_requests_at_2)
qed

section \<open>Validation passes: properties\<close>

lemma collect_fold:
  "foldl (\<lambda>acc (bi, verdict).
              case verdict of
                None \<Rightarrow> acc\<lparr>validBundleItems := validBundleItems acc @ [bi]\<rparr>
              | Some code \<Rightarrow>
                  acc\<lparr>invalidWithError :=
                        invalidWithError acc @ [\<lparr>bundleItem = item bi, orderError = code\<rparr>]\<rparr>)
       acc results =
   \<lparr>validBundleItems = validBundleItems acc @ map fst (filter (\<lambda>r. snd r = None) results),
    invalidWithError = invalidWithError acc @
       map (\<lambda>r. \<lparr>bundleItem = item (fst r), orderError = the (snd r)\<rparr>)
         (filter (\<lambda>r. snd r \<noteq> None) results)\<rparr>"
proof (induction results arbitrary: acc)
  case Nil
  show ?case by simp
next
  case (Cons r rs)
  obtain bi verdict where r: "r = (bi, verdict)" by (cases r)
  show ?case by (cases verdict) (simp_all add: r Cons.IH)
qed

lemma collect_map:
  "collect (map (\<lambda>bi. (bi, f bi)) items) =
     \<lparr>validBundleItems = filter (\<lambda>bi. f bi = None) items,
      invalidWithError =
        map (\<lambda>bi. \<lparr>bundleItem = item bi, orderError = the (f bi)\<rparr>)
          (filter (\<lambda>bi. f bi \<noteq> None) items)\<rparr>"
  by (simp add: collect_def collect_fold filter_map comp_def)

lemma buyer_pass_None_iff:
  "buyer_pass env buyer price cs = None \<longleftrightarrow> (\<forall>c\<in>set cs. currency_ok env buyer price c)"
proof (induction cs)
  case Nil
  show ?case by simp
next
  case (Cons c cs)
  show ?case
  proof (cases c)
    case None
    then show ?thesis by (simp add: currency_ok_def)
  next
    case (Some currency)
    with Cons show ?thesis
      by (auto simp: currency_ok_def not_less split: option.splits)
  qed
qed

lemma buyer_pass_skip:
  "\<forall>c\<in>set pre. currency_ok env buyer price c \<Longrightarrow>
   buyer_pass env buyer price (pre @ rest) = buyer_pass env buyer price rest"
proof (induction pre)
  case Nil
  show ?case by simp
next
  case (Cons c pre)
  then have ok: "currency_ok env buyer price c" by simp
  then obtain currency where c: "c = Some currency" by (cases c) (simp_all add: currency_ok_def)
  from ok c Cons show ?case
    by (auto simp: currency_ok_def not_less split: option.splits)
qed

lemma buyer_pass_allowance:
  assumes "\<forall>c\<in>set pre. currency_ok env buyer price c"
    and "allowance env cur buyer (contract_address env) = Some a"
    and "a < expectedCost price"
  shows "buyer_pass env buyer price (pre @ Some cur # post) = Some InsufficientCurrencyAllowance"
  using assms by (simp add: buyer_pass_skip)

lemma buyer_pass_balance:
  assumes "\<forall>c\<in>set pre. currency_ok env buyer price c"
    and "allowance env cur buyer (contract_address env) = Some a"
    and "\<not> a < expectedCost price"
    and "balanceOf env cur buyer = Some bal"
    and "bal < expectedCost price"
  shows "buyer_pass env buyer price (pre @ Some cur # post) = Some InsufficientCurrencyBalance"
  using assms by (simp add: buyer_pass_skip)

lemma buyer_rejected:
  assumes "bi \<in> set bundleItems"
    and "buyer_verdict env (view (item bi)) (currentPrice bi) = Some code"
  shows "\<lparr>bundleItem = item bi, orderError = code\<rparr>
          \<in> set (invalidWithError (checkNftBuyerApprovalAndBalance env view bundleItems))"
proof -
  let ?f = "\<lambda>bi. buyer_verdict env (view (item bi)) (currentPrice bi)"
  from assms have "bi \<in> set (filter (\<lambda>bi. ?f bi \<noteq> None) bundleItems)" by simp
  then have "\<lparr>bundleItem = item bi, orderError = the (?f bi)\<rparr>
          \<in> set (map (\<lambda>bi. \<lparr>bundleItem = item bi, orderError = the (?f bi)\<rparr>)
                    (filter (\<lambda>bi. ?f bi \<noteq> None) bundleItems))"
    unfolding set_map by (rule imageI)
  with assms(2) show ?thesis
    by (simp add: checkNftBuyerApprovalAndBalance_def collect_map)
qed

text \<open>
  C7, amended. The buyer pass checks the order currency \<^verbatim>\<open>buy.execParams[1]\<close> first and the
  wrapped native currency second, the latter only if it is another string; the expected
  cost is the current price times 11, divided by 10. An item of the input is classified
  valid exactly when every one of these currencies passes both checks. The first check
  that fails decides: when the currencies before a currency pass both checks and its
  allowance is below the expected cost, the verdict is \<^verbatim>\<open>InsufficientCurrencyAllowance\<close>;
  when its allowance suffices and its balance is below the expected cost, the verdict is
  \<^verbatim>\<open>InsufficientCurrencyBalance\<close>; the item is returned as invalid with that code.
\<close>

theorem buyer_pass_verdicts:
  fixes env :: chain and view :: "'t \<Rightarrow> BundleItem" and bundleItems bi
  defines "res \<equiv> checkNftBuyerApprovalAndBalance env view bundleItems"
    and "b \<equiv> view (item bi)"
    and "cost \<equiv> currentPrice bi * 11 div 10"
  defines "buyer \<equiv> signer (item_buy b)"
  assumes "bi \<in> set bundleItems"
  shows "(1 < length (execParams (item_buy b)) \<longrightarrow>
            set (buyer_currencies env b) = {Some (execParams (item_buy b) ! 1), Some (weth env)} \<and>
            distinct (buyer_currencies env b)) \<and>
         (bi \<in> set (validBundleItems res) \<longleftrightarrow>
            (\<forall>c\<in>set (buyer_currencies env b). currency_ok env buyer (currentPrice bi) c)) \<and>
         (\<forall>pre cur post a.
            buyer_currencies env b = pre @ Some cur # post \<and>
            (\<forall>c\<in>set pre. currency_ok env buyer (currentPrice bi) c) \<and>
            allowance env cur buyer (contract_address env) = Some a \<and> a < cost \<longrightarrow>
            buyer_verdict env b (currentPrice bi) = Some InsufficientCurrencyAllowance \<and>
            \<lparr>bundleItem = item bi, orderError = InsufficientCurrencyAllowance\<rparr>
              \<in> set (invalidWithError res)) \<and>
         (\<forall>pre cur post a bal.
            buyer_currencies env b = pre @ Some cur # post \<and>
            (\<forall>c\<in>set pre. currency_ok env buyer (currentPrice bi) c) \<and>
            allowance env cur buyer (contract_address env) = Some a \<and> \<not> a < cost \<and>
            balanceOf env cur buyer = Some bal \<and> bal < cost \<longrightarrow>
            buyer_verdict env b (currentPrice bi) = Some InsufficientCurrencyBalance \<and>
            \<lparr>bundleItem = item bi, orderError = InsufficientCurrencyBalance\<rparr>
              \<in> set (invalidWithError res)) \<and>
         (1 < length (execParams (item_buy b)) \<longrightarrow>
            buyer_currencies env b =
              (if execParams (item_buy b) ! 1 = weth env then [Some (execParams (item_buy b) ! 1)]
               else [Some (execParams (item_buy b) ! 1), Some (weth env)]))"
proof (intro conjI impI allI)
  assume "1 < length (execParams (item_buy b))"
  then show "set (buyer_currencies env b) = {Some (execParams (item_buy b) ! 1), Some (weth env)}"
    and "distinct (buyer_currencies env b)"
    and "buyer_currencies env b =
              (if execParams (item_buy b) ! 1 = weth env then [Some (execParams (item_buy b) ! 1)]
               else [Some (execParams (item_buy b) ! 1), Some (weth env)])"
    by (auto simp: buyer_currencies_def Let_def)
next
  show "bi \<in> set (validBundleItems res) \<longleftrightarrow>
            (\<forall>c\<in>set (buyer_currencies env b). currency_ok env buyer (currentPrice bi) c)"
    using assms(5)
    by (simp add: res_def b_def buyer_def checkNftBuyerApprovalAndBalance_def collect_map
        buyer_verdict_def buyer_pass_None_iff)
next
  fix pre cur post a
  assume "buyer_currencies env b = pre @ Some cur # post \<and>
            (\<forall>c\<in>set pre. currency_ok env buyer (currentPrice bi) c) \<and>
            allowance env cur buyer (contract_address env) = Some a \<and> a < cost"
  then have v: "buyer_verdict env (view (item bi)) (currentPrice bi) = Some InsufficientCurrencyAllowance"
    using buyer_pass_allowance [of pre env buyer "currentPrice bi" cur a post]
    by (simp add: buyer_verdict_def b_def buyer_def cost_def expectedCost_def)
  then show "buyer_verdict env b (currentPrice bi) = Some InsufficientCurrencyAllowance"
    by (simp add: b_def)
  from buyer_rejected [of bi bundleItems env view, OF assms(5) v]
  show "\<lparr>bundleItem = item bi, orderError = InsufficientCurrencyAllowance\<rparr>
              \<in> set (invalidWithError res)"
    by (simp add: res_def)
next
  fix pre cur post a bal
  assume "buyer_currencies env b = pre @ Some cur # post \<and>
            (\<forall>c\<in>set pre. currency_ok env buyer (currentPrice bi) c) \<and>
            allowance env cur buyer (contract_address env) = Some a \<and> \<not> a < cost \<and>
            balanceOf env cur buyer = Some bal \<and> bal < cost"
  then have v: "buyer_verdict env (view (item bi)) (currentPrice bi) = Some InsufficientCurrencyBalance"
    using buyer_pass_balance [of pre env buyer "currentPrice bi" cur a bal post]
    by (simp add: buyer_verdict_def b_def buyer_def cost_def expectedCost_def)
  then show "buyer_verdict env b (currentPrice bi) = Some InsufficientCurrencyBalance"
    by (simp add: b_def)
  from buyer_rejected [of bi bundleItems env view, OF assms(5) v]
  show "\<lparr>bundleItem = item bi, orderError = InsufficientCurrencyBalance\<rparr>
              \<in> set (invalidWithError res)"
    by (simp add: res_def)
qed

lemma expected_cost_of_one_ether: "expectedCost 1000000000000000000 = 1100000000000000000"
  by (simp add: expectedCost_def)

lemma currencies_of_scenarios:
  "buyer_currencies env (MatchOrdersOneToOneItem one_to_one_item) =
     (if weth_address = weth env then [Some weth_address] else [Some weth_address, Some (weth env)])"
  "buyer_currencies env (MatchOrdersOneToOneItem dai_item) =
     (if dai_address = weth env then [Some dai_address] else [Some dai_address, Some (weth env)])"
  by (simp_all add: buyer_currencies_def one_to_one_item_def dai_item_def buy_order_def)

lemma weth_of_chains:
  "weth happy_chain = weth_address" "weth short_allowance_chain = weth_address"
  "weth short_balance_chain = weth_address"
  by (simp_all add: happy_chain_def short_allowance_chain_def short_balance_chain_def)

lemma dai_is_not_weth: "dai_address \<noteq> weth_address"
  by (simp add: dai_address_def weth_address_def)

lemma buyer_reads:
  "allowance happy_chain c x y = Some 2000000000000000000"
  "balanceOf happy_chain c x = Some 2000000000000000000"
  "allowance short_allowance_chain weth_address x y = Some 1099999999999999999"
  "allowance short_allowance_chain dai_address x y = Some 2000000000000000000"
  "balanceOf short_allowance_chain c x = Some 2000000000000000000"
  "allowance short_balance_chain c x y = Some 2000000000000000000"
  "balanceOf short_balance_chain weth_address x = Some 1099999999999999999"
  "balanceOf short_balance_chain dai_address x = Some 2000000000000000000"
  by (simp_all add: happy_chain_def short_allowance_chain_def short_balance_chain_def dai_is_not_weth)

lemma both_short_reads:
  "weth both_short_chain = weth_address"
  "allowance both_short_chain dai_address x y = Some 2000000000000000000"
  "allowance both_short_chain weth_address x y = Some 5"
  "balanceOf both_short_chain dai_address x = Some 7"
  by (simp_all add: both_short_chain_def happy_chain_def dai_is_not_weth)

text \<open>
  C7 as stated fails where two currencies fail different checks: the buyer of the scenario
  is short of balance in the order currency and short of allowance in the wrapped native
  currency, both currencies are in the set, and the item is rejected with
  \<^verbatim>\<open>InsufficientCurrencyBalance\<close> only; the allowance of the second currency is never read.
\<close>

theorem later_currency_not_checked_counterexample:
  "buyer_currencies both_short_chain (MatchOrdersOneToOneItem dai_item) =
     [Some dai_address, Some weth_address] \<and>
   allowance both_short_chain weth_address (signer (buy dai_item)) (contract_address both_short_chain) =
     Some 5 \<and>
   (5::nat) < 1000000000000000000 * 11 div 10 \<and>
   checkNftBuyerApprovalAndBalance both_short_chain MatchOrdersOneToOneItem
     [\<lparr>item = dai_item, currentPrice = 1000000000000000000\<rparr>] =
     \<lparr>validBundleItems = [],
      invalidWithError = [\<lparr>bundleItem = dai_item, orderError = InsufficientCurrencyBalance\<rparr>]\<rparr> \<and>
   \<lparr>bundleItem = dai_item, orderError = InsufficientCurrencyAllowance\<rparr>
     \<notin> set (invalidWithError
         (checkNftBuyerApprovalAndBalance both_short_chain MatchOrdersOneToOneItem
            [\<lparr>item = dai_item, currentPrice = 1000000000000000000\<rparr>]))"
proof -
  have cs: "buyer_currencies both_short_chain (MatchOrdersOneToOneItem dai_item) =
     [Some dai_address, Some weth_address]"
    by (simp add: currencies_of_scenarios both_short_reads dai_is_not_weth)
  have v: "buyer_verdict both_short_chain (MatchOrdersOneToOneItem dai_item) 1000000000000000000 =
     Some InsufficientCurrencyBalance"
    by (simp add: buyer_verdict_def cs both_short_reads expected_cost_of_one_ether)
  have r: "checkNftBuyerApprovalAndBalance both_short_chain MatchOrdersOneToOneItem
     [\<lparr>item = dai_item, currentPrice = 1000000000000000000\<rparr>] =
     \<lparr>validBundleItems = [],
      invalidWithError = [\<lparr>bundleItem = dai_item, orderError = InsufficientCurrencyBalance\<rparr>]\<rparr>"
    by (simp add: checkNftBuyerApprovalAndBalance_def collect_def v)
  show ?thesis
    by (simp add: cs r both_short_reads)
qed

theorem buyer_pass_verdicts_witness:
  "(let bi = \<lparr>item = one_to_one_item, currentPrice = 1000000000000000000\<rparr>;
        res = checkNftBuyerApprovalAndBalance happy_chain MatchOrdersOneToOneItem [bi]
    in bi \<in> set [bi] \<and>
       set (buyer_currencies happy_chain (MatchOrdersOneToOneItem one_to_one_item)) = {Some weth_address} \<and>
       bi \<in> set (validBundleItems res)) \<and>
   (let bi = \<lparr>item = dai_item, currentPrice = 1000000000000000000\<rparr>;
        res = checkNftBuyerApprovalAndBalance short_allowance_chain MatchOrdersOneToOneItem [bi]
    in buyer_currencies short_allowance_chain (MatchOrdersOneToOneItem dai_item) =
         [Some dai_address] @ Some weth_address # [] \<and>
       currency_ok short_allowance_chain (signer (buy dai_item)) 1000000000000000000 (Some dai_address) \<and>
       allowance short_allowance_chain weth_address (signer (buy dai_item))
         (contract_address short_allowance_chain) = Some 1099999999999999999 \<and>
       (1099999999999999999::nat) < 1000000000000000000 * 11 div 10 \<and>
       \<lparr>bundleItem = dai_item, orderError = InsufficientCurrencyAllowance\<rparr>
         \<in> set (invalidWithError res) \<and>
       bi \<notin> set (validBundleItems res)) \<and>
   (let bi = \<lparr>item = dai_item, currentPrice = 1000000000000000000\<rparr>;
        res = checkNftBuyerApprovalAndBalance short_balance_chain MatchOrdersOneToOneItem [bi]
    in balanceOf short_balance_chain weth_address (signer (buy dai_item)) = Some 1099999999999999999 \<and>
       \<lparr>bundleItem = dai_item, orderError = InsufficientCurrencyBalance\<rparr>
         \<in> set (invalidWithError res) \<and>
       bi \<notin> set (validBundleItems res))"
proof -
  let ?price = "1000000000000000000 :: nat"
  let ?view = MatchOrdersOneToOneItem
  let ?a = "\<lparr>item = one_to_one_item, currentPrice = ?price\<rparr>"
  let ?d = "\<lparr>item = dai_item, currentPrice = ?price\<rparr>"
  have cs: "buyer_currencies happy_chain (?view one_to_one_item) = [Some weth_address]"
    "buyer_currencies short_allowance_chain (?view dai_item) = [Some dai_address, Some weth_address]"
    "buyer_currencies short_balance_chain (?view dai_item) = [Some dai_address, Some weth_address]"
    by (simp_all add: currencies_of_scenarios weth_of_chains dai_is_not_weth)
  have ok: "currency_ok happy_chain x ?price (Some c)"
    "currency_ok short_allowance_chain x ?price (Some dai_address)"
    "currency_ok short_balance_chain x ?price (Some dai_address)" for x c
    by (simp_all add: currency_ok_def buyer_reads expected_cost_of_one_ether)
  have bad: "\<not> currency_ok short_allowance_chain x ?price (Some weth_address)"
    "\<not> currency_ok short_balance_chain x ?price (Some weth_address)" for x
    by (simp_all add: currency_ok_def buyer_reads expected_cost_of_one_ether)
  have ma: "?a \<in> set [?a]" and md: "?d \<in> set [?d]" by simp_all
  have 1: "?a \<in> set (validBundleItems
              (checkNftBuyerApprovalAndBalance happy_chain ?view [?a]))"
    using buyer_pass_verdicts [of ?a "[?a]" ?view happy_chain, OF ma, THEN conjunct2, THEN conjunct1]
    by (simp add: cs ok)
  have 2: "\<lparr>bundleItem = dai_item, orderError = InsufficientCurrencyAllowance\<rparr>
         \<in> set (invalidWithError (checkNftBuyerApprovalAndBalance short_allowance_chain ?view [?d]))"
    using buyer_pass_verdicts [of ?d "[?d]" ?view short_allowance_chain, OF md,
          THEN conjunct2, THEN conjunct2, THEN conjunct1, rule_format,
          of "[Some dai_address]" weth_address "[]" 1099999999999999999]
    by (simp add: cs ok buyer_reads)
  have n2: "?d \<notin> set (validBundleItems (checkNftBuyerApprovalAndBalance short_allowance_chain ?view [?d]))"
    using buyer_pass_verdicts [of ?d "[?d]" ?view short_allowance_chain, OF md, THEN conjunct2, THEN conjunct1]
    by (simp add: cs bad)
  have 3: "\<lparr>bundleItem = dai_item, orderError = InsufficientCurrencyBalance\<rparr>
         \<in> set (invalidWithError (checkNftBuyerApprovalAndBalance short_balance_chain ?view [?d]))"
    using buyer_pass_verdicts [of ?d "[?d]" ?view short_balance_chain, OF md,
          THEN conjunct2, THEN conjunct2, THEN conjunct2, THEN conjunct1, rule_format,
          of "[Some dai_address]" weth_address "[]" 2000000000000000000 1099999999999999999]
    by (simp add: cs ok buyer_reads)
  have n3: "?d \<notin> set (validBundleItems (checkNftBuyerApprovalAndBalance short_balance_chain ?view [?d]))"
    using buyer_pass_verdicts [of ?d "[?d]" ?view short_balance_chain, OF md, THEN conjunct2, THEN conjunct1]
    by (simp add: cs bad)
  from 1 2 n2 3 n3 show ?thesis
    by (simp add: Let_def cs ok buyer_reads)
qed

section \<open>Verifier: properties\<close>















section \<open>Seller pass and encoder: where the code departs from the specification\<close>

lemma lower_checksummed: "toLowerCase seller_checksummed = seller_address"
  by (simp add: toLowerCase_def lower_char_def seller_checksummed_def seller_address_def)

lemma checksummed_differs: "seller_checksummed \<noteq> seller_address"
  by (simp add: seller_checksummed_def seller_address_def)

lemma seller_reads:
  "isApprovedForAll happy_chain c x y = Some True"
  "ownerOf happy_chain c t = Some seller_checksummed"
  "isApprovedForAll unapproved_chain c x y = Some False"
  "isApprovedForAll short_allowance_chain c x y = Some True"
  "ownerOf short_allowance_chain c t = Some seller_checksummed"
  by (simp_all add: happy_chain_def unapproved_chain_def short_allowance_chain_def)

lemma sellers_of_scenarios:
  "signer (sell checksummed_item) = seller_checksummed"
  "signer (sell one_to_one_item) = seller_address"
  "nfts (sell checksummed_item) = [\<lparr>collection = collection_address, tokens = [token_7]\<rparr>]"
  "nfts (sell one_to_one_item) = [\<lparr>collection = collection_address, tokens = [token_7]\<rparr>]"
  by (simp_all add: checksummed_item_def one_to_one_item_def sell_order_def)

lemma seller_verdicts:
  "seller_verdict happy_chain (MatchOrdersOneToOneItem checksummed_item) = Some InsufficientTokenBalance"
  "seller_verdict happy_chain (MatchOrdersOneToOneItem one_to_one_item) = None"
  "seller_verdict short_allowance_chain (MatchOrdersOneToOneItem one_to_one_item) = None"
  "seller_verdict unapproved_chain (MatchOrdersOneToOneItem one_to_one_item) =
     Some NotApprovedToTransferToken"
  by (simp_all add: seller_verdict_def sellers_of_scenarios seller_reads lower_checksummed
      checksummed_differs)

lemma lower_char_idem: "lower_char (lower_char c) = lower_char c"
  by (simp add: lower_char_def)

lemma toLowerCase_idem: "toLowerCase (toLowerCase s) = toLowerCase s"
  by (simp add: toLowerCase_def lower_char_idem)

text \<open>
  A signer address that is not in lower case equals no lower-cased owner: an item with such
  a seller and at least one token never passes the owner check.
\<close>

lemma mixed_case_signer_never_owner:
  assumes "seller \<noteq> toLowerCase seller"
  shows "owner_pass env coll seller (token # rest) \<noteq> None"
proof (cases "ownerOf env coll (tokenId token)")
  case None
  then show ?thesis by simp
next
  case (Some ownerOfToken)
  have "seller \<noteq> toLowerCase ownerOfToken"
  proof
    assume "seller = toLowerCase ownerOfToken"
    then have "toLowerCase seller = seller" by (simp add: toLowerCase_idem)
    with assms show False by simp
  qed
  with Some show ?thesis by simp
qed

text \<open>
  C6, where the code departs from it. The seller of the scenario owns the token: the
  contract returns as owner the very string that the order holds as signer, in the
  checksummed spelling. The pass lower-cases the owner only, finds the two strings
  different and rejects the item with \<^verbatim>\<open>InsufficientTokenBalance\<close>. With the signer stored
  in lower case the same item is valid.
\<close>

theorem checksummed_seller_is_rejected:
  "signer (sell checksummed_item) = seller_checksummed \<and>
   ownerOf happy_chain collection_address ''7'' = Some seller_checksummed \<and>
   toLowerCase (signer (sell checksummed_item)) = toLowerCase seller_checksummed \<and>
   checkNftSellerApprovalAndBalance happy_chain MatchOrdersOneToOneItem
     [\<lparr>item = checksummed_item, currentPrice = 1000000000000000000\<rparr>] =
     \<lparr>validBundleItems = [],
      invalidWithError = [\<lparr>bundleItem = checksummed_item, orderError = InsufficientTokenBalance\<rparr>]\<rparr> \<and>
   checkNftSellerApprovalAndBalance happy_chain MatchOrdersOneToOneItem
     [\<lparr>item = one_to_one_item, currentPrice = 1000000000000000000\<rparr>] =
     \<lparr>validBundleItems = [\<lparr>item = one_to_one_item, currentPrice = 1000000000000000000\<rparr>],
      invalidWithError = []\<rparr>"
  by (simp add: checkNftSellerApprovalAndBalance_def collect_def seller_verdicts
      sellers_of_scenarios seller_reads)

text \<open>
  What the encoder returns as invalid is the verifier's list of invalid items and nothing
  else, whatever the passes and the packer have rejected or dropped.
\<close>

lemma encoder_returns_verifier_list:
  assumes "encoder env pk view verifyBundleItems bundleItemsToArgs bundleItems minBundleSize = Some (Inr r)"
  shows "\<exists>v. verifyBundleItems bundleItems = Inr v \<and> invalidBundleItems r = invalidFromVerify v"
proof -
  from assms obtain st where
    st: "encoder_passes env view verifyBundleItems bundleItems = Inr st"
    by (auto simp: encoder_def split: sum.splits)
  then obtain v where v: "verifyBundleItems bundleItems = Inr v"
    and fv: "invalidBundleItemsFromVerify st = invalidFromVerify v"
    by (auto simp: encoder_passes_def Let_def split: sum.splits)
  show ?thesis
  proof (cases "int (length (still_valid st)) < minBundleSize")
    case True
    with assms st fv have "invalidBundleItems r = invalidFromVerify v"
      by (auto simp: encoder_def)
    with v show ?thesis by blast
  next
    case False
    with assms st obtain b where
      b: "buildBundles env pk bundleItemsToArgs (map item (still_valid st)) 1 = Some b"
      and r: "r = \<lparr>txRequests = txRequests b,
                   invalidBundleItems = invalidBundleItemsFromVerify st @ invalidBundleItems b\<rparr>"
      by (auto simp: encoder_def split: option.splits)
    from buildBundles_Some_run [OF b] have "invalidBundleItems b = []"
      by (auto simp: returns_after_def)
    with r fv v show ?thesis by simp
  qed
qed

lemma one_to_one_verified:
  "matchOrdersOneToOneVerifier integer_pricing [one_to_one_item] =
     Inr \<lparr>validAfterVerification = [\<lparr>item = one_to_one_item, currentPrice = 1000000000000000000\<rparr>],
          invalidFromVerify = []\<rparr>"
proof -
  have "js_index (constraints (sell one_to_one_item)) (Suc 0) = JSString ''1000000000000000000''"
    by (simp add: js_index_def one_to_one_item_def sell_order_def)
  then show ?thesis
    by (simp add: matchOrdersOneToOneVerifier_def integer_pricing_def decimal_value_strings)
qed

lemma collect_empty: "collect [] = \<lparr>validBundleItems = [], invalidWithError = []\<rparr>"
  by (simp add: collect_def)

lemma buyer_verdicts:
  "buyer_verdict happy_chain (MatchOrdersOneToOneItem one_to_one_item) 1000000000000000000 = None"
  "buyer_verdict short_allowance_chain (MatchOrdersOneToOneItem one_to_one_item) 1000000000000000000 =
     Some InsufficientCurrencyAllowance"
  by (simp_all add: buyer_verdict_def currencies_of_scenarios weth_of_chains buyer_reads
      expected_cost_of_one_ether)

lemma passes_unapproved:
  "encoder_passes unapproved_chain MatchOrdersOneToOneItem
     (matchOrdersOneToOneVerifier integer_pricing) [one_to_one_item] =
     Inr \<lparr>still_valid = [],
          rejected = [\<lparr>bundleItem = one_to_one_item, orderError = NotApprovedToTransferToken\<rparr>],
          invalidBundleItemsFromVerify = []\<rparr>"
  by (simp add: encoder_passes_def one_to_one_verified checkNftSellerApprovalAndBalance_def
      checkNftBuyerApprovalAndBalance_def collect_def seller_verdicts)

lemma passes_short_allowance:
  "encoder_passes short_allowance_chain MatchOrdersOneToOneItem
     (matchOrdersOneToOneVerifier integer_pricing) [one_to_one_item] =
     Inr \<lparr>still_valid = [],
          rejected = [\<lparr>bundleItem = one_to_one_item, orderError = InsufficientCurrencyAllowance\<rparr>],
          invalidBundleItemsFromVerify = []\<rparr>"
  by (simp add: encoder_passes_def one_to_one_verified checkNftSellerApprovalAndBalance_def
      checkNftBuyerApprovalAndBalance_def collect_def seller_verdicts buyer_verdicts)

lemma passes_happy:
  "encoder_passes happy_chain MatchOrdersOneToOneItem
     (matchOrdersOneToOneVerifier integer_pricing) [one_to_one_item] =
     Inr \<lparr>still_valid = [\<lparr>item = one_to_one_item, currentPrice = 1000000000000000000\<rparr>],
          rejected = [],
          invalidBundleItemsFromVerify = []\<rparr>"
  by (simp add: encoder_passes_def one_to_one_verified checkNftSellerApprovalAndBalance_def
      checkNftBuyerApprovalAndBalance_def collect_def seller_verdicts buyer_verdicts)

lemma build_nothing:
  "buildBundles env pk matchOrdersOneToOneItemsToArgsTransformer [] 1 =
     Some \<lparr>txRequests = [], invalidBundleItems = []\<rparr>"
proof -
  have "transactionRequests env pk matchOrdersOneToOneItemsToArgsTransformer [] 1 = []"
    by (simp add: transactionRequests_def matchOrdersOneToOneItemsToArgsTransformer_def
        List.map_filter_def)
  then show ?thesis
    using buildBundles_fits [of env pk matchOrdersOneToOneItemsToArgsTransformer "[]" 1]
    by (simp add: oversize_at_def transactionsTooBig_def)
qed

lemma build_without_estimate:
  "buildBundles happy_chain no_estimate matchOrdersOneToOneItemsToArgsTransformer [one_to_one_item] 1 =
     Some \<lparr>txRequests = [], invalidBundleItems = []\<rparr>"
proof -
  have "(1::enat) \<noteq> 0" by simp
  then have "transactionRequests happy_chain no_estimate
          matchOrdersOneToOneItemsToArgsTransformer [one_to_one_item] 1 = []"
    by (simp add: transactionRequests_def one_to_one_args_single List.map_filter_def
        try_request_def no_estimate_def gas_per_match_def)
  then show ?thesis
    using buildBundles_fits [of happy_chain no_estimate matchOrdersOneToOneItemsToArgsTransformer
        "[one_to_one_item]" 1]
    by (simp add: oversize_at_def transactionsTooBig_def)
qed

text \<open>
  C1, where the code departs from it. An item that the seller pass rejects (the exchange
  is not approved) is in the encoder's local list with its code, and the encoder returns
  neither a request nor an invalid item, with a minimal bundle size of one and of zero
  alike. The same holds for an item that the buyer pass rejects. An item whose gas
  estimation fails passes every check, and again the encoder returns no request and no
  invalid item.
\<close>

theorem rejected_items_are_not_returned:
  "encoder_passes unapproved_chain MatchOrdersOneToOneItem
     (matchOrdersOneToOneVerifier integer_pricing) [one_to_one_item] =
     Inr \<lparr>still_valid = [],
          rejected = [\<lparr>bundleItem = one_to_one_item, orderError = NotApprovedToTransferToken\<rparr>],
          invalidBundleItemsFromVerify = []\<rparr> \<and>
   matchOrdersOneToOneEncoder unapproved_chain (gas_per_match 20000000) integer_pricing
     [one_to_one_item] 1 = Some (Inr \<lparr>txRequests = [], invalidBundleItems = []\<rparr>) \<and>
   matchOrdersOneToOneEncoder unapproved_chain (gas_per_match 20000000) integer_pricing
     [one_to_one_item] 0 = Some (Inr \<lparr>txRequests = [], invalidBundleItems = []\<rparr>) \<and>
   encoder_passes short_allowance_chain MatchOrdersOneToOneItem
     (matchOrdersOneToOneVerifier integer_pricing) [one_to_one_item] =
     Inr \<lparr>still_valid = [],
          rejected = [\<lparr>bundleItem = one_to_one_item, orderError = InsufficientCurrencyAllowance\<rparr>],
          invalidBundleItemsFromVerify = []\<rparr> \<and>
   matchOrdersOneToOneEncoder short_allowance_chain (gas_per_match 20000000) integer_pricing
     [one_to_one_item] 1 = Some (Inr \<lparr>txRequests = [], invalidBundleItems = []\<rparr>) \<and>
   encoder_passes happy_chain MatchOrdersOneToOneItem
     (matchOrdersOneToOneVerifier integer_pricing) [one_to_one_item] =
     Inr \<lparr>still_valid = [\<lparr>item = one_to_one_item, currentPrice = 1000000000000000000\<rparr>],
          rejected = [],
          invalidBundleItemsFromVerify = []\<rparr> \<and>
   matchOrdersOneToOneEncoder happy_chain no_estimate integer_pricing
     [one_to_one_item] 1 = Some (Inr \<lparr>txRequests = [], invalidBundleItems = []\<rparr>)"
  by (simp add: matchOrdersOneToOneEncoder_def encoder_def passes_unapproved
      passes_short_allowance passes_happy build_nothing build_without_estimate)

end
